theory Spec2Isabelle
  imports Main
begin

section \<open>JavaScript values used by the URL transformer\<close>

text \<open>
  The module \<^verbatim>\<open>src/utils/url-transformer.ts\<close> is a set of synchronous functions over
  strings. Two platform functions it calls can throw: the \<^verbatim>\<open>URL\<close> constructor
  (\<^verbatim>\<open>TypeError\<close> on an unparsable input) and \<^verbatim>\<open>decodeURIComponent\<close>
  (\<^verbatim>\<open>URIError\<close> on a malformed escape). A call therefore completes either by
  throwing (\<open>Inl\<close>) or by returning a value (\<open>Inr\<close>), and a
  \<^verbatim>\<open>try { ... } catch { ... }\<close> block is the function \<open>try_catch\<close>: the handler
  of this module never looks at the exception.

  A string is a list of 8-bit characters: an ASCII character is itself, any other
  character stands as the bytes of its UTF-8 encoding. A value of type
  \<^verbatim>\<open>string | null\<close> is a \<open>string option\<close>.
\<close>

datatype exn = TypeError | URIError

type_synonym 'a completion = "exn + 'a"

definition try_catch :: "'a completion \<Rightarrow> 'a completion \<Rightarrow> 'a completion" where
  "try_catch body handler = (case body of Inl e \<Rightarrow> handler | Inr v \<Rightarrow> Inr v)"

text \<open>\<^verbatim>\<open>String.prototype.startsWith\<close> and \<^verbatim>\<open>String.prototype.endsWith\<close>.\<close>

definition startsWith :: "string \<Rightarrow> string \<Rightarrow> bool" where
  "startsWith s p = (take (length p) s = p)"

definition endsWith :: "string \<Rightarrow> string \<Rightarrow> bool" where
  "endsWith s p = (length p \<le> length s \<and> drop (length s - length p) s = p)"

text \<open>
  \<^verbatim>\<open>s.replace(pat, rep)\<close> with a string pattern: the first occurrence of \<open>pat\<close>
  (scanning from the left) is replaced, the rest of \<open>s\<close> is kept. The replacement
  strings of this module contain no \<^verbatim>\<open>$\<close>, so no replacement pattern is expanded.
\<close>

fun String_replace :: "string \<Rightarrow> string \<Rightarrow> string \<Rightarrow> string" where
  "String_replace [] pat rep = (if pat = [] then rep else [])"
| "String_replace (c # cs) pat rep =
     (if startsWith (c # cs) pat then rep @ drop (length pat) (c # cs)
      else c # String_replace cs pat rep)"

text \<open>\<^verbatim>\<open>s.replace(/_/g, ' ')\<close>: every underscore becomes a space.\<close>

primrec replace_underscores :: "string \<Rightarrow> string" where
  "replace_underscores [] = []"
| "replace_underscores (c # cs) =
     (if c = CHR ''_'' then CHR '' '' # replace_underscores cs
      else c # replace_underscores cs)"

text \<open>\<^verbatim>\<open>Array.prototype.includes\<close> on an array of strings.\<close>

primrec Array_includes :: "string list \<Rightarrow> string \<Rightarrow> bool" where
  "Array_includes [] x = False"
| "Array_includes (y # ys) x = (y = x \<or> Array_includes ys x)"

text \<open>
  \<^verbatim>\<open>!v\<close> for \<open>v\<close> of type \<^verbatim>\<open>string | null\<close> holds of \<^verbatim>\<open>null\<close> and of the
  empty string. In a template literal, \<^verbatim>\<open>${v}\<close> is the string itself, and
  \<^verbatim>\<open>null\<close> is written \<^verbatim>\<open>null\<close>.
\<close>

definition falsy :: "string option \<Rightarrow> bool" where
  "falsy v = (case v of None \<Rightarrow> True | Some s \<Rightarrow> s = '''')"

definition String_of :: "string option \<Rightarrow> string" where
  "String_of v = (case v of None \<Rightarrow> ''null'' | Some s \<Rightarrow> s)"

section \<open>The URL object\<close>

text \<open>
  The fields of a parsed \<^verbatim>\<open>URL\<close> object that carry the host, the path, the query
  string and the fragment. The module reads \<open>hostname\<close> and \<open>pathname\<close> only.
\<close>

record URL =
  hostname :: string
  pathname :: string
  search :: string
  hash :: string

text \<open>
  The \<^verbatim>\<open>URL\<close> constructor is supplied by the JavaScript platform. The functions of
  the module take it as their first argument \<open>new_URL\<close>, so that what is proved of them
  holds for whatever the platform's parser returns.
\<close>

type_synonym url_constructor = "string \<Rightarrow> URL completion"

section \<open>Constants and result type of the module\<close>

definition EXCLUDED_NAMESPACES :: "string list" where
  "EXCLUDED_NAMESPACES =
    [''Special:'', ''Wikipedia:'', ''Talk:'', ''User:'', ''User_talk:'', ''File:'',
     ''File_talk:'', ''MediaWiki:'', ''MediaWiki_talk:'', ''Template:'',
     ''Template_talk:'', ''Help:'', ''Help_talk:'', ''Category:'', ''Category_talk:'',
     ''Portal:'', ''Portal_talk:'', ''Draft:'', ''Draft_talk:'', ''TimedText:'',
     ''Module:'', ''Module_talk:'', ''Gadget:'', ''Gadget_talk:'',
     ''Gadget_definition:'', ''Gadget_definition_talk:'']"

definition GROKIPEDIA_BASE_URL :: string where
  "GROKIPEDIA_BASE_URL = ''https://grokipedia.com''"

text \<open>An optional property of \<^verbatim>\<open>TransformResult\<close> that is not set is \<open>None\<close>.\<close>

record TransformResult =
  success :: bool
  grokipediaUrl :: "string option"
  articleName :: "string option"
  language :: "string option"
  error :: "string option"

section \<open>isArticlePage\<close>

text \<open>
  The \<^verbatim>\<open>for (const namespace of EXCLUDED_NAMESPACES)\<close> loop: \<open>Some False\<close> when the
  loop body executes \<^verbatim>\<open>return false\<close>, \<open>None\<close> when the loop runs to its end.
\<close>

primrec namespace_loop :: "string list \<Rightarrow> string \<Rightarrow> bool option" where
  "namespace_loop [] articlePath = None"
| "namespace_loop (ns # rest) articlePath =
     (if startsWith articlePath ns then Some False else namespace_loop rest articlePath)"

definition isArticlePage :: "url_constructor \<Rightarrow> string \<Rightarrow> bool completion" where
  "isArticlePage new_URL url =
     try_catch
       (case new_URL url of
          Inl e \<Rightarrow> Inl e
        | Inr urlObj \<Rightarrow>
            if \<not> endsWith (hostname urlObj) ''.wikipedia.org'' then Inr False
            else if \<not> startsWith (pathname urlObj) ''/wiki/'' then Inr False
            else
              let articlePath = String_replace (pathname urlObj) ''/wiki/'' '''' in
              (case namespace_loop EXCLUDED_NAMESPACES articlePath of
                 Some r \<Rightarrow> Inr r
               | None \<Rightarrow>
                   if articlePath = '''' \<or> articlePath = ''Main_Page'' then Inr True
                   else Inr True))
       (Inr False)"

section \<open>extractLanguage\<close>

definition is_lower :: "char \<Rightarrow> bool" where
  "is_lower c = (97 \<le> (of_char c :: nat) \<and> (of_char c :: nat) \<le> 122)"

text \<open>
  \<^verbatim>\<open>hostname.match(/^([a-z]{2,3})\.wikipedia\.org$/)\<close>, giving capture group 1 of a
  match. The quantifier is greedy: three letters are tried before two.
  \<open>lang_attempt n\<close> is the attempt with exactly \<open>n\<close> letters in the group.
\<close>

definition lang_attempt :: "nat \<Rightarrow> string \<Rightarrow> string option" where
  "lang_attempt n h =
     (if length (take n h) = n \<and> list_all is_lower (take n h)
         \<and> drop n h = ''.wikipedia.org''
      then Some (take n h) else None)"

definition match_lang :: "string \<Rightarrow> string option" where
  "match_lang h =
     (case lang_attempt 3 h of Some g \<Rightarrow> Some g | None \<Rightarrow> lang_attempt 2 h)"

text \<open>\<^verbatim>\<open>hostname.match(/^(simple)\.wikipedia\.org$/)\<close>, giving capture group 1.\<close>

definition match_simple :: "string \<Rightarrow> string option" where
  "match_simple h = (if h = ''simple.wikipedia.org'' then Some ''simple'' else None)"

definition extractLanguage :: "url_constructor \<Rightarrow> string \<Rightarrow> string option completion" where
  "extractLanguage new_URL url =
     try_catch
       (case new_URL url of
          Inl e \<Rightarrow> Inl e
        | Inr urlObj \<Rightarrow>
            (case match_lang (hostname urlObj) of
               Some g \<Rightarrow> Inr (Some g)
             | None \<Rightarrow>
                 (case match_simple (hostname urlObj) of
                    Some g \<Rightarrow> Inr (Some ''simple'')
                  | None \<Rightarrow> Inr None)))
       (Inr None)"

section \<open>extractArticleName\<close>

text \<open>\<^verbatim>\<open>articlePath || null\<close> is \<^verbatim>\<open>null\<close> when \<open>articlePath\<close> is the empty string.\<close>

definition extractArticleName :: "url_constructor \<Rightarrow> string \<Rightarrow> string option completion" where
  "extractArticleName new_URL url =
     try_catch
       (case new_URL url of
          Inl e \<Rightarrow> Inl e
        | Inr urlObj \<Rightarrow>
            if \<not> startsWith (pathname urlObj) ''/wiki/'' then Inr None
            else
              let articlePath = String_replace (pathname urlObj) ''/wiki/'' '''' in
              Inr (if articlePath \<noteq> '''' then Some articlePath else None))
       (Inr None)"

section \<open>transformToGrokipedia\<close>

text \<open>
  The body of \<^verbatim>\<open>transformToGrokipedia\<close>. \<open>transformToGrokipedia_traced\<close> returns, next
  to the completion, the list of the calls to the three helper functions that the body
  has made, in the order made; \<open>transformToGrokipedia\<close> is its completion.
\<close>

datatype helper_call = Call_isArticlePage | Call_extractLanguage | Call_extractArticleName

definition failure :: "string \<Rightarrow> TransformResult" where
  "failure msg =
     \<lparr>success = False, grokipediaUrl = None, articleName = None, language = None,
      error = Some msg\<rparr>"

definition transformToGrokipedia_traced ::
  "url_constructor \<Rightarrow> string \<Rightarrow> helper_call list \<times> TransformResult completion" where
  "transformToGrokipedia_traced new_URL wikipediaUrl =
     (case isArticlePage new_URL wikipediaUrl of
        Inl e \<Rightarrow> ([Call_isArticlePage], Inl e)
      | Inr isArticle \<Rightarrow>
          if \<not> isArticle then
            ([Call_isArticlePage], Inr (failure ''Not a Wikipedia article page''))
          else
            (case extractLanguage new_URL wikipediaUrl of
               Inl e \<Rightarrow> ([Call_isArticlePage, Call_extractLanguage], Inl e)
             | Inr lang \<Rightarrow>
                 if falsy lang then
                   ([Call_isArticlePage, Call_extractLanguage],
                    Inr (failure ''Could not extract language from URL''))
                 else
                   (case extractArticleName new_URL wikipediaUrl of
                      Inl e \<Rightarrow>
                        ([Call_isArticlePage, Call_extractLanguage, Call_extractArticleName],
                         Inl e)
                    | Inr name \<Rightarrow>
                        if falsy name then
                          ([Call_isArticlePage, Call_extractLanguage, Call_extractArticleName],
                           Inr (failure ''Could not extract article name from URL''))
                        else
                          ([Call_isArticlePage, Call_extractLanguage, Call_extractArticleName],
                           Inr \<lparr>success = True,
                                grokipediaUrl =
                                  Some (GROKIPEDIA_BASE_URL @ ''/page/'' @ String_of name),
                                articleName = name,
                                language = lang,
                                error = None\<rparr>))))"

definition transformToGrokipedia :: "url_constructor \<Rightarrow> string \<Rightarrow> TransformResult completion" where
  "transformToGrokipedia new_URL wikipediaUrl =
     snd (transformToGrokipedia_traced new_URL wikipediaUrl)"

section \<open>decodeArticleName and isLanguageEnabled\<close>

text \<open>
  \<^verbatim>\<open>decodeURIComponent\<close> is the platform's; \<open>decodeArticleName\<close> takes it as its
  first argument.
\<close>

definition decodeArticleName :: "(string \<Rightarrow> string completion) \<Rightarrow> string \<Rightarrow> string completion" where
  "decodeArticleName decodeURIComponent name =
     try_catch
       (case decodeURIComponent name of
          Inl e \<Rightarrow> Inl e
        | Inr decoded \<Rightarrow> Inr (replace_underscores decoded))
       (Inr (replace_underscores name))"

definition isLanguageEnabled :: "string \<Rightarrow> string list \<Rightarrow> bool" where
  "isLanguageEnabled lang enabledLanguages =
     (if length enabledLanguages = 0 then True else Array_includes enabledLanguages lang)"

section \<open>Notions of the specification\<close>

text \<open>
  A language label in the words of the specification: two or three lowercase ASCII
  letters, or the literal \<^verbatim>\<open>simple\<close>.
\<close>

definition language_label :: "string \<Rightarrow> bool" where
  "language_label l =
     (((length l = 2 \<or> length l = 3) \<and> list_all is_lower l) \<or> l = ''simple'')"

text \<open>
  Two outcomes of the \<^verbatim>\<open>URL\<close> constructor that agree on everything but the query
  string and the fragment: both throw, or both return and the host names and the paths
  are equal.
\<close>

definition same_host_and_path :: "URL completion \<Rightarrow> URL completion \<Rightarrow> bool" where
  "same_host_and_path a b =
     (case a of
        Inl e \<Rightarrow> (case b of Inl e' \<Rightarrow> True | Inr v \<Rightarrow> False)
      | Inr u \<Rightarrow>
          (case b of
             Inl e' \<Rightarrow> False
           | Inr v \<Rightarrow> hostname u = hostname v \<and> pathname u = pathname v))"

section \<open>The platform's URL constructor on URLs with an ASCII host name\<close>

text \<open>
  \<open>URL_parse\<close> follows the basic URL parser of the WHATWG URL Standard, called without
  a base URL, state by state. It covers input whose scheme is one of \<^verbatim>\<open>http\<close>,
  \<^verbatim>\<open>https\<close>, \<^verbatim>\<open>ws\<close>, \<^verbatim>\<open>wss\<close>, \<^verbatim>\<open>ftp\<close> and whose host is an ASCII domain name
  (no percent-escape, no \<^verbatim>\<open>xn--\<close> label, no IPv4 or IPv6 address). On such input
  the parser either fails (\<open>Failure\<close>: the constructor throws \<^verbatim>\<open>TypeError\<close>) or
  returns the URL (\<open>Parsed\<close>). An input with no scheme fails as well, there being no
  base URL. Any other input is \<open>Outside\<close>: the model does not say what the parser does
  on it.

  \<open>URL_new outside\<close> is the constructor as the functions of the module take it. It
  returns the URL where \<open>URL_parse\<close> gives one and throws \<^verbatim>\<open>TypeError\<close> where
  \<open>URL_parse\<close> fails. On an input that is \<open>Outside\<close> it is \<open>outside\<close>, a parameter:
  the platform's constructor on the inputs that \<open>URL_parse\<close> does not cover, of which
  nothing is assumed (it returns a URL for many of them). So a fact about
  \<open>URL_new outside\<close> with \<open>outside\<close> free holds whatever the platform does there. A
  closed example needs one constructor: it takes for \<open>outside\<close> the constructor that
  always throws, at inputs where \<open>URL_parse\<close> is \<open>Parsed\<close> or \<open>Failure\<close>, so
  that the example does not depend on that choice; the fact it instantiates is proved
  for every \<open>outside\<close>. What holds of the module for every input string is proved
  for every constructor.
\<close>

datatype 'a outcome = Parsed 'a | Failure | Outside

definition code :: "char \<Rightarrow> nat" where
  "code c = of_char c"

definition ascii_alpha :: "char \<Rightarrow> bool" where
  "ascii_alpha c = ((65 \<le> code c \<and> code c \<le> 90) \<or> (97 \<le> code c \<and> code c \<le> 122))"

definition ascii_digit :: "char \<Rightarrow> bool" where
  "ascii_digit c = (48 \<le> code c \<and> code c \<le> 57)"

definition ascii_hex_digit :: "char \<Rightarrow> bool" where
  "ascii_hex_digit c =
     (ascii_digit c \<or> (65 \<le> code c \<and> code c \<le> 70) \<or> (97 \<le> code c \<and> code c \<le> 102))"

definition ascii_lowercase :: "char \<Rightarrow> char" where
  "ascii_lowercase c = (if 65 \<le> code c \<and> code c \<le> 90 then char_of (code c + 32) else c)"

definition hex_digit :: "nat \<Rightarrow> char" where
  "hex_digit n = ''0123456789ABCDEF'' ! n"

text \<open>Percent-encoding of one byte, and of the bytes of a string that are in a set.\<close>

definition percent_encode_byte :: "char \<Rightarrow> string" where
  "percent_encode_byte c = [CHR ''%'', hex_digit (code c div 16), hex_digit (code c mod 16)]"

definition percent_encode :: "(char \<Rightarrow> bool) \<Rightarrow> string \<Rightarrow> string" where
  "percent_encode in_set s =
     concat (map (\<lambda>c. if in_set c then percent_encode_byte c else [c]) s)"

definition c0_control_percent_encode_set :: "char \<Rightarrow> bool" where
  "c0_control_percent_encode_set c = (code c \<le> 31 \<or> 126 < code c)"

definition fragment_percent_encode_set :: "char \<Rightarrow> bool" where
  "fragment_percent_encode_set c =
     (c0_control_percent_encode_set c \<or> c = CHR 0x22 \<or> c \<in> set '' <>`'')"

definition query_percent_encode_set :: "char \<Rightarrow> bool" where
  "query_percent_encode_set c =
     (c0_control_percent_encode_set c \<or> c = CHR 0x22 \<or> c \<in> set '' #<>'')"

definition special_query_percent_encode_set :: "char \<Rightarrow> bool" where
  "special_query_percent_encode_set c = (query_percent_encode_set c \<or> c = CHR 0x27)"

definition path_percent_encode_set :: "char \<Rightarrow> bool" where
  "path_percent_encode_set c = (query_percent_encode_set c \<or> c \<in> set ''?^`{}'')"

text \<open>
  Before parsing, leading and trailing C0 control characters and spaces are removed,
  then every tab and newline.
\<close>

definition c0_control_or_space :: "char \<Rightarrow> bool" where
  "c0_control_or_space c = (code c \<le> 32)"

definition tab_or_newline :: "char \<Rightarrow> bool" where
  "tab_or_newline c = (code c = 9 \<or> code c = 10 \<or> code c = 13)"

definition strip_and_clean :: "string \<Rightarrow> string" where
  "strip_and_clean input =
     filter (\<lambda>c. \<not> tab_or_newline c)
       (rev (dropWhile c0_control_or_space (rev (dropWhile c0_control_or_space input))))"

text \<open>
  Scheme start state and scheme state: an ASCII letter, then letters, digits,
  \<^verbatim>\<open>+\<close>, \<^verbatim>\<open>-\<close> and \<^verbatim>\<open>.\<close> up to a colon. The result is the lowercased scheme and
  the input after the colon; \<open>None\<close> when there is no scheme.
\<close>

definition scheme_char :: "char \<Rightarrow> bool" where
  "scheme_char c =
     (ascii_alpha c \<or> ascii_digit c \<or> c = CHR ''+'' \<or> c = CHR ''-'' \<or> c = CHR ''.'')"

definition scheme_state :: "string \<Rightarrow> (string \<times> string) option" where
  "scheme_state s =
     (case s of
        [] \<Rightarrow> None
      | c # cs \<Rightarrow>
          if \<not> ascii_alpha c then None
          else (case dropWhile scheme_char s of
                  [] \<Rightarrow> None
                | d # rest \<Rightarrow>
                    if d = CHR '':'' then Some (map ascii_lowercase (takeWhile scheme_char s), rest)
                    else None))"

text \<open>
  For a special scheme a backslash counts as a slash. The authority runs up to the
  first slash, \<^verbatim>\<open>?\<close> or \<^verbatim>\<open>#\<close>.
\<close>

definition is_slash :: "char \<Rightarrow> bool" where
  "is_slash c = (c = CHR ''/'' \<or> c = CHR 0x5C)"

definition authority_end :: "char \<Rightarrow> bool" where
  "authority_end c = (is_slash c \<or> c = CHR ''?'' \<or> c = CHR ''#'')"

text \<open>
  Authority state, over the characters of the authority: at each \<^verbatim>\<open>@\<close> the buffer
  read so far is the credentials and is dropped. The result is whether an \<^verbatim>\<open>@\<close> was
  seen, and the buffer at the end (host and port).
\<close>

fun authority_state :: "bool \<Rightarrow> string \<Rightarrow> string \<Rightarrow> bool \<times> string" where
  "authority_state atSignSeen buffer [] = (atSignSeen, buffer)"
| "authority_state atSignSeen buffer (c # cs) =
     (if c = CHR ''@'' then authority_state True [] cs
      else authority_state atSignSeen (buffer @ [c]) cs)"

text \<open>
  Host state: the host is the buffer up to the first colon outside square brackets;
  what follows the colon is the port.
\<close>

fun host_state :: "bool \<Rightarrow> string \<Rightarrow> string \<Rightarrow> string \<times> string option" where
  "host_state insideBrackets buffer [] = (buffer, None)"
| "host_state insideBrackets buffer (c # cs) =
     (if c = CHR '':'' \<and> \<not> insideBrackets then (buffer, Some cs)
      else host_state
             (if c = CHR ''['' then True else if c = CHR '']'' then False else insideBrackets)
             (buffer @ [c]) cs)"

text \<open>Port state: digits only, and a value of at most 65535. True when the port is accepted.\<close>

definition port_state :: "string \<Rightarrow> bool" where
  "port_state buffer =
     (list_all ascii_digit buffer
      \<and> (buffer = [] \<or> foldl (\<lambda>n c. 10 * n + (code c - 48)) 0 buffer \<le> 65535))"

definition forbidden_host_code_point :: "char \<Rightarrow> bool" where
  "forbidden_host_code_point c =
     (code c \<in> {0, 9, 10, 13, 32} \<or> c \<in> set ''#/:<>?@[]^|'' \<or> c = CHR 0x5C)"

definition forbidden_domain_code_point :: "char \<Rightarrow> bool" where
  "forbidden_domain_code_point c =
     (forbidden_host_code_point c \<or> code c \<le> 31 \<or> c = CHR ''%'' \<or> code c = 127)"

fun split_on :: "char \<Rightarrow> string \<Rightarrow> string \<Rightarrow> string list" where
  "split_on sep buffer [] = [buffer]"
| "split_on sep buffer (c # cs) =
     (if c = sep then buffer # split_on sep [] cs else split_on sep (buffer @ [c]) cs)"

text \<open>
  The ends-in-a-number checker: the last label (after one trailing empty label is
  removed) is a run of digits, or \<^verbatim>\<open>0x\<close> and hexadecimal digits.
\<close>

definition ipv4_number_like :: "string \<Rightarrow> bool" where
  "ipv4_number_like l =
     (l \<noteq> [] \<and>
      (list_all ascii_digit l
       \<or> (map ascii_lowercase (take 2 l) = ''0x'' \<and> list_all ascii_hex_digit (drop 2 l))))"

definition ends_in_a_number :: "string \<Rightarrow> bool" where
  "ends_in_a_number h =
     (let parts = split_on (CHR ''.'') [] h;
          parts' = (if last parts = [] then butlast parts else parts)
      in parts' \<noteq> [] \<and> ipv4_number_like (last parts'))"

definition punycode_label :: "string \<Rightarrow> bool" where
  "punycode_label l = (map ascii_lowercase (take 4 l) = ''xn--'')"

text \<open>
  The host parser on a non-empty host of a special scheme. For an ASCII host with no
  percent-escape and no \<^verbatim>\<open>xn--\<close> label, domain-to-ASCII is ASCII lowercasing; a
  forbidden domain code point in the result is a failure.
\<close>

definition host_parser :: "string \<Rightarrow> string outcome" where
  "host_parser input =
     (if take 1 input = ''[''
         \<or> list_ex (\<lambda>c. 128 \<le> code c \<or> c = CHR ''%'') input
         \<or> list_ex punycode_label (split_on (CHR ''.'') [] input)
      then Outside
      else
        let asciiDomain = map ascii_lowercase input in
        if asciiDomain = [] \<or> list_ex forbidden_domain_code_point asciiDomain then Failure
        else if ends_in_a_number asciiDomain then Outside
        else Parsed asciiDomain)"

text \<open>
  Path state. A segment ends at a slash, at \<^verbatim>\<open>?\<close>, at \<^verbatim>\<open>#\<close> or at the end of the
  input. A double-dot segment removes the last segment of the path, a single-dot segment
  is dropped, any other segment is appended; when a dot segment is not followed by a
  slash, an empty segment is appended. Other characters are percent-encoded into the
  buffer. The result is the path and the input from \<^verbatim>\<open>?\<close> or \<^verbatim>\<open>#\<close> on.
\<close>

definition single_dot_segment :: "string \<Rightarrow> bool" where
  "single_dot_segment b = (map ascii_lowercase b \<in> set [''.'', ''%2e''])"

definition double_dot_segment :: "string \<Rightarrow> bool" where
  "double_dot_segment b =
     (map ascii_lowercase b \<in> set [''..'', ''.%2e'', ''%2e.'', ''%2e%2e''])"

definition path_segment_end :: "string list \<Rightarrow> string \<Rightarrow> bool \<Rightarrow> string list" where
  "path_segment_end path buffer at_slash =
     (if double_dot_segment buffer then
        (if at_slash then butlast path else butlast path @ [''''])
      else if single_dot_segment buffer then
        (if at_slash then path else path @ [''''])
      else path @ [buffer])"

fun path_state :: "string list \<Rightarrow> string \<Rightarrow> string \<Rightarrow> string list \<times> string" where
  "path_state path buffer [] = (path_segment_end path buffer False, [])"
| "path_state path buffer (c # cs) =
     (if is_slash c then path_state (path_segment_end path buffer True) [] cs
      else if c = CHR ''?'' \<or> c = CHR ''#'' then (path_segment_end path buffer False, c # cs)
      else path_state path
             (buffer @ (if path_percent_encode_set c then percent_encode_byte c else [c])) cs)"

text \<open>Path start state: one leading slash is consumed.\<close>

definition path_start_state :: "string \<Rightarrow> string list \<times> string" where
  "path_start_state rest =
     (case rest of
        [] \<Rightarrow> path_state [] [] []
      | c # cs \<Rightarrow> if is_slash c then path_state [] [] cs else path_state [] [] (c # cs))"

text \<open>
  Query state and fragment state, and the \<open>search\<close> and \<open>hash\<close> getters: the empty
  string for an absent or empty component, else the component after its \<^verbatim>\<open>?\<close> or
  \<^verbatim>\<open>#\<close>.
\<close>

definition query_and_fragment :: "string \<Rightarrow> string \<times> string" where
  "query_and_fragment rest =
     (let q = (if take 1 rest = ''?'' then takeWhile (\<lambda>c. c \<noteq> CHR ''#'') (drop 1 rest) else []);
          after = dropWhile (\<lambda>c. c \<noteq> CHR ''#'') rest;
          f = drop 1 after;
          query = percent_encode special_query_percent_encode_set q;
          fragment = percent_encode fragment_percent_encode_set f
      in ((if query = [] then [] else CHR ''?'' # query),
          (if fragment = [] then [] else CHR ''#'' # fragment)))"

text \<open>
  The parser. After the scheme of a special URL, any run of slashes and backslashes is
  skipped. An authority with an \<^verbatim>\<open>@\<close> and nothing after it, and an empty host, are
  failures. The \<open>pathname\<close> getter writes a slash before each segment of the path.
\<close>

definition URL_parse :: "string \<Rightarrow> URL outcome" where
  "URL_parse input =
     (case scheme_state (strip_and_clean input) of
        None \<Rightarrow> Failure
      | Some (scheme, rest) \<Rightarrow>
          if scheme \<notin> set [''http'', ''https'', ''ws'', ''wss'', ''ftp''] then Outside
          else
            let rest1 = dropWhile is_slash rest;
                (atSignSeen, hostport) =
                  authority_state False [] (takeWhile (\<lambda>c. \<not> authority_end c) rest1);
                rest2 = dropWhile (\<lambda>c. \<not> authority_end c) rest1;
                (hostbuf, port) = host_state False [] hostport
            in
              if hostbuf = [] then Failure
              else
                (case host_parser hostbuf of
                   Failure \<Rightarrow> Failure
                 | Outside \<Rightarrow> Outside
                 | Parsed host \<Rightarrow>
                     if (case port of None \<Rightarrow> False | Some p \<Rightarrow> \<not> port_state p) then Failure
                     else
                       let (path, rest3) = path_start_state rest2;
                           (srch, hsh) = query_and_fragment rest3
                       in Parsed \<lparr>hostname = host,
                                  pathname = concat (map (\<lambda>seg. CHR ''/'' # seg) path),
                                  search = srch, hash = hsh\<rparr>))"

definition URL_new :: "url_constructor \<Rightarrow> url_constructor" where
  "URL_new outside input =
     (case URL_parse input of
        Parsed u \<Rightarrow> Inr u
      | Failure \<Rightarrow> Inl TypeError
      | Outside \<Rightarrow> outside input)"

section \<open>The platform's decodeURIComponent\<close>

text \<open>
  \<open>Decode\<close> follows the abstract operation \<^verbatim>\<open>Decode\<close> of the ECMAScript
  specification with an empty set of preserved escapes. \<open>pending\<close> is the number of
  continuation escapes still to be read for the current character and \<open>octets\<close> the
  octets read for it so far. \<open>None\<close> is a thrown \<^verbatim>\<open>URIError\<close>: an escape that is cut
  short or is not hexadecimal, a first octet with one or more than four leading 1 bits,
  a continuation that is not an escape, or octets that are no valid UTF-8 encoding.
  The decoded character stands in the result as its UTF-8 octets.
\<close>

definition hex_value :: "char \<Rightarrow> nat option" where
  "hex_value c =
     (if ascii_digit c then Some (code c - 48)
      else if 65 \<le> code c \<and> code c \<le> 70 then Some (code c - 55)
      else if 97 \<le> code c \<and> code c \<le> 102 then Some (code c - 87)
      else None)"

definition ParseHexOctet :: "char \<Rightarrow> char \<Rightarrow> nat option" where
  "ParseHexOctet h1 h2 =
     (case hex_value h1 of
        None \<Rightarrow> None
      | Some a \<Rightarrow> (case hex_value h2 of None \<Rightarrow> None | Some b \<Rightarrow> Some (16 * a + b)))"

definition leading_ones :: "nat \<Rightarrow> nat" where
  "leading_ones b =
     (if b < 128 then 0 else if b < 192 then 1 else if b < 224 then 2
      else if b < 240 then 3 else if b < 248 then 4 else 5)"

definition continuation :: "nat \<Rightarrow> bool" where
  "continuation b = (128 \<le> b \<and> b \<le> 191)"

definition valid_utf8 :: "nat list \<Rightarrow> bool" where
  "valid_utf8 octets =
     (case octets of
        [b0, b1] \<Rightarrow> 194 \<le> b0 \<and> b0 \<le> 223 \<and> continuation b1
      | [b0, b1, b2] \<Rightarrow>
          224 \<le> b0 \<and> b0 \<le> 239 \<and> continuation b1 \<and> continuation b2
          \<and> (if b0 = 224 then 160 \<le> b1 else True) \<and> (if b0 = 237 then b1 \<le> 159 else True)
      | [b0, b1, b2, b3] \<Rightarrow>
          240 \<le> b0 \<and> b0 \<le> 244 \<and> continuation b1 \<and> continuation b2 \<and> continuation b3
          \<and> (if b0 = 240 then 144 \<le> b1 else True) \<and> (if b0 = 244 then b1 \<le> 143 else True)
      | _ \<Rightarrow> False)"

fun Decode :: "nat \<Rightarrow> nat list \<Rightarrow> string \<Rightarrow> string option" where
  "Decode pending octets [] = (if pending = 0 then Some [] else None)"
| "Decode pending octets (c # h1 # h2 # rest) =
     (if c = CHR ''%'' then
        (case ParseHexOctet h1 h2 of
           None \<Rightarrow> None
         | Some b \<Rightarrow>
             if pending = 0 then
               (if leading_ones b = 0 then map_option ((#) (char_of b)) (Decode 0 [] rest)
                else if leading_ones b = 1 \<or> leading_ones b > 4 then None
                else Decode (leading_ones b - 1) [b] rest)
             else if pending = 1 then
               (if valid_utf8 (octets @ [b])
                then map_option ((@) (map char_of (octets @ [b]))) (Decode 0 [] rest)
                else None)
             else Decode (pending - 1) (octets @ [b]) rest)
      else if pending = 0 then map_option ((#) c) (Decode 0 [] (h1 # h2 # rest))
      else None)"
| "Decode pending octets (c # cs) =
     (if c = CHR ''%'' \<or> pending \<noteq> 0 then None
      else map_option ((#) c) (Decode 0 [] cs))"

definition decodeURIComponent :: "string \<Rightarrow> string completion" where
  "decodeURIComponent s = (case Decode 0 [] s of None \<Rightarrow> Inl URIError | Some r \<Rightarrow> Inr r)"

section \<open>Notions used in the facts about the URL parser\<close>

text \<open>A string with no \<^verbatim>\<open>?\<close> and no \<^verbatim>\<open>#\<close> in it.\<close>

definition no_query_mark :: "string \<Rightarrow> bool" where
  "no_query_mark s = (CHR ''?'' \<notin> set s \<and> CHR ''#'' \<notin> set s)"

text \<open>The characters of the namespace prefixes: ASCII letters, underscore and colon.\<close>

definition namespace_char :: "char \<Rightarrow> bool" where
  "namespace_char c = (ascii_alpha c \<or> c = CHR ''_'' \<or> c = CHR '':'')"

text \<open>
  What is left of the end of an input after the parser's clean-up: trailing C0 control
  characters and spaces removed, then every tab and newline.
\<close>

definition clean_suffix :: "string \<Rightarrow> string" where
  "clean_suffix s =
     filter (\<lambda>c. \<not> tab_or_newline c) (rev (dropWhile c0_control_or_space (rev s)))"

section \<open>Facts about the functions of the module\<close>

lemma try_catch_simps [simp]:
  "try_catch (Inr v) h = Inr v" "try_catch (Inl e) h = h"
  by (simp_all add: try_catch_def)

lemma startsWith_iff: "startsWith s p \<longleftrightarrow> (\<exists>r. s = p @ r)"
proof
  assume "startsWith s p"
  then have "s = p @ drop (length p) s"
    unfolding startsWith_def by (metis append_take_drop_id)
  then show "\<exists>r. s = p @ r" ..
next
  assume "\<exists>r. s = p @ r"
  then show "startsWith s p" by (auto simp: startsWith_def)
qed

lemma String_replace_startsWith:
  "startsWith s pat \<Longrightarrow> String_replace s pat rep = rep @ drop (length pat) s"
  by (cases s) (auto simp: startsWith_def)

lemma String_replace_wiki:
  "startsWith p ''/wiki/'' \<Longrightarrow> String_replace p ''/wiki/'' '''' = drop 6 p"
  by (simp add: String_replace_startsWith eval_nat_numeral del: String_replace.simps)

lemma namespace_loop_None:
  "namespace_loop nss a = None \<longleftrightarrow> (\<forall>ns \<in> set nss. \<not> startsWith a ns)"
  by (induction nss) auto

lemma namespace_loop_Some:
  "namespace_loop nss a = Some r \<longleftrightarrow> (r = False \<and> (\<exists>ns \<in> set nss. startsWith a ns))"
  by (induction nss) auto

lemma isArticlePage_Inl: "new_URL url = Inl e \<Longrightarrow> isArticlePage new_URL url = Inr False"
  by (simp add: isArticlePage_def)

lemma isArticlePage_Inr:
  assumes u: "new_URL url = Inr u"
  shows "isArticlePage new_URL url =
     Inr (endsWith (hostname u) ''.wikipedia.org''
          \<and> startsWith (pathname u) ''/wiki/''
          \<and> (\<forall>ns \<in> set EXCLUDED_NAMESPACES. \<not> startsWith (drop 6 (pathname u)) ns))"
proof (cases "startsWith (pathname u) ''/wiki/''")
  case False
  with u show ?thesis
    by (simp add: isArticlePage_def)
next
  case True
  note sr = String_replace_wiki [OF True]
  show ?thesis
  proof (cases "namespace_loop EXCLUDED_NAMESPACES (drop 6 (pathname u))")
    case None
    then have "\<forall>ns \<in> set EXCLUDED_NAMESPACES. \<not> startsWith (drop 6 (pathname u)) ns"
      by (simp add: namespace_loop_None)
    with u True sr None show ?thesis
      by (simp add: isArticlePage_def)
  next
    case (Some b)
    then have "b = False" "\<not> (\<forall>ns \<in> set EXCLUDED_NAMESPACES. \<not> startsWith (drop 6 (pathname u)) ns)"
      by (simp_all add: namespace_loop_Some)
    with u True sr Some show ?thesis
      by (simp add: isArticlePage_def)
  qed
qed

lemma isArticlePage_returns: "\<exists>b. isArticlePage new_URL url = Inr b"
  by (cases "new_URL url") (auto simp: isArticlePage_Inl isArticlePage_Inr)

lemma extractArticleName_Inl:
  "new_URL url = Inl e \<Longrightarrow> extractArticleName new_URL url = Inr None"
  by (simp add: extractArticleName_def)

lemma extractArticleName_Inr:
  assumes u: "new_URL url = Inr u"
  shows "extractArticleName new_URL url =
     Inr (if startsWith (pathname u) ''/wiki/'' \<and> drop 6 (pathname u) \<noteq> ''''
          then Some (drop 6 (pathname u)) else None)"
proof (cases "startsWith (pathname u) ''/wiki/''")
  case False
  with u show ?thesis
    by (simp add: extractArticleName_def)
next
  case True
  note sr = String_replace_wiki [OF True]
  from u True sr show ?thesis
    by (simp add: extractArticleName_def)
qed

lemma extractArticleName_returns: "\<exists>a. extractArticleName new_URL url = Inr a"
  by (cases "new_URL url") (auto simp: extractArticleName_Inl extractArticleName_Inr)

lemma extractArticleName_nonempty:
  "extractArticleName new_URL url = Inr (Some a) \<Longrightarrow> a \<noteq> ''''"
  by (cases "new_URL url")
     (auto simp: extractArticleName_Inl extractArticleName_Inr split: if_splits)

lemma lang_attempt_Some:
  "lang_attempt n h = Some g \<longleftrightarrow>
     (h = g @ ''.wikipedia.org'' \<and> length g = n \<and> list_all is_lower g)"
proof
  assume "lang_attempt n h = Some g"
  then have g: "g = take n h" and len: "length (take n h) = n"
    and low: "list_all is_lower (take n h)" and d: "drop n h = ''.wikipedia.org''"
    by (auto simp: lang_attempt_def split: if_splits)
  have "h = take n h @ drop n h" by simp
  with g d have "h = g @ ''.wikipedia.org''" by simp
  with g len low show "h = g @ ''.wikipedia.org'' \<and> length g = n \<and> list_all is_lower g"
    by simp
next
  assume "h = g @ ''.wikipedia.org'' \<and> length g = n \<and> list_all is_lower g"
  then show "lang_attempt n h = Some g"
    by (simp add: lang_attempt_def)
qed

lemma lang_attempt_None:
  "lang_attempt n h = None \<longleftrightarrow>
     \<not> (\<exists>g. h = g @ ''.wikipedia.org'' \<and> length g = n \<and> list_all is_lower g)"
  using lang_attempt_Some [of n h] by (cases "lang_attempt n h") auto

lemma match_lang_Some:
  "match_lang h = Some g \<longleftrightarrow>
     (h = g @ ''.wikipedia.org'' \<and> (length g = 2 \<or> length g = 3) \<and> list_all is_lower g)"
proof (cases "lang_attempt 3 h")
  case None
  then have no3: "\<not> (\<exists>g. h = g @ ''.wikipedia.org'' \<and> length g = 3 \<and> list_all is_lower g)"
    by (simp add: lang_attempt_None)
  from None have "match_lang h = lang_attempt 2 h"
    by (simp add: match_lang_def)
  with no3 show ?thesis
    by (auto simp: lang_attempt_Some)
next
  case (Some g3)
  then have g3: "h = g3 @ ''.wikipedia.org''" "length g3 = 3" "list_all is_lower g3"
    by (simp_all add: lang_attempt_Some)
  from Some have m: "match_lang h = Some g3"
    by (simp add: match_lang_def)
  show ?thesis
  proof
    assume "match_lang h = Some g"
    with m g3 show "h = g @ ''.wikipedia.org'' \<and> (length g = 2 \<or> length g = 3) \<and> list_all is_lower g"
      by simp
  next
    assume "h = g @ ''.wikipedia.org'' \<and> (length g = 2 \<or> length g = 3) \<and> list_all is_lower g"
    with g3 have "g = g3" by simp
    with m show "match_lang h = Some g" by simp
  qed
qed

lemma match_lang_None:
  "match_lang h = None \<longleftrightarrow>
     \<not> (\<exists>g. h = g @ ''.wikipedia.org'' \<and> (length g = 2 \<or> length g = 3) \<and> list_all is_lower g)"
  using match_lang_Some [of h] by (cases "match_lang h") auto

lemma extractLanguage_Inl:
  "new_URL url = Inl e \<Longrightarrow> extractLanguage new_URL url = Inr None"
  by (simp add: extractLanguage_def)

lemma extractLanguage_Inr_Some:
  assumes u: "new_URL url = Inr u"
  shows "extractLanguage new_URL url = Inr (Some l) \<longleftrightarrow>
           (hostname u = l @ ''.wikipedia.org'' \<and> language_label l)"
proof (cases "match_lang (hostname u)")
  case (Some g)
  then have g: "hostname u = g @ ''.wikipedia.org''" "length g = 2 \<or> length g = 3"
    "list_all is_lower g"
    by (simp_all add: match_lang_Some)
  from u Some have e: "extractLanguage new_URL url = Inr (Some g)"
    by (simp add: extractLanguage_def)
  show ?thesis
  proof
    assume "extractLanguage new_URL url = Inr (Some l)"
    with e have "l = g" by simp
    with g show "hostname u = l @ ''.wikipedia.org'' \<and> language_label l"
      by (simp add: language_label_def)
  next
    assume "hostname u = l @ ''.wikipedia.org'' \<and> language_label l"
    with g have "l = g" by simp
    with e show "extractLanguage new_URL url = Inr (Some l)" by simp
  qed
next
  case None
  then have no: "\<not> (\<exists>g. hostname u = g @ ''.wikipedia.org'' \<and> (length g = 2 \<or> length g = 3)
      \<and> list_all is_lower g)"
    by (simp add: match_lang_None)
  from u None have e: "extractLanguage new_URL url =
      Inr (if hostname u = ''simple.wikipedia.org'' then Some ''simple'' else None)"
    by (simp add: extractLanguage_def match_simple_def)
  show ?thesis
  proof
    assume "extractLanguage new_URL url = Inr (Some l)"
    with e have "hostname u = ''simple.wikipedia.org''" "l = ''simple''"
      by (auto split: if_splits)
    then show "hostname u = l @ ''.wikipedia.org'' \<and> language_label l"
      by (simp add: language_label_def)
  next
    assume a: "hostname u = l @ ''.wikipedia.org'' \<and> language_label l"
    with no have "l = ''simple''"
      unfolding language_label_def by blast
    with a e show "extractLanguage new_URL url = Inr (Some l)" by simp
  qed
qed

lemma extractLanguage_returns: "\<exists>l. extractLanguage new_URL url = Inr l"
  by (cases "new_URL url")
     (auto simp: extractLanguage_def split: option.splits)

lemma extractLanguage_Inr_None:
  assumes u: "new_URL url = Inr u"
  shows "extractLanguage new_URL url = Inr None \<longleftrightarrow>
           \<not> (\<exists>l. hostname u = l @ ''.wikipedia.org'' \<and> language_label l)"
proof
  assume n: "extractLanguage new_URL url = Inr None"
  show "\<not> (\<exists>l. hostname u = l @ ''.wikipedia.org'' \<and> language_label l)"
  proof
    assume "\<exists>l. hostname u = l @ ''.wikipedia.org'' \<and> language_label l"
    then obtain l where "hostname u = l @ ''.wikipedia.org'' \<and> language_label l" ..
    with extractLanguage_Inr_Some [of new_URL url u l, OF u]
    have "extractLanguage new_URL url = Inr (Some l)"
      by (rule iffD2)
    with n show False
      by simp
  qed
next
  assume no: "\<not> (\<exists>l. hostname u = l @ ''.wikipedia.org'' \<and> language_label l)"
  obtain lo where lo: "extractLanguage new_URL url = Inr lo"
    using extractLanguage_returns by blast
  show "extractLanguage new_URL url = Inr None"
  proof (cases lo)
    case None
    with lo show ?thesis
      by simp
  next
    case (Some k)
    with lo have "extractLanguage new_URL url = Inr (Some k)"
      by simp
    with extractLanguage_Inr_Some [of new_URL url u k, OF u]
    have "hostname u = k @ ''.wikipedia.org'' \<and> language_label k"
      by (rule iffD1)
    then have "\<exists>l. hostname u = l @ ''.wikipedia.org'' \<and> language_label l" ..
    with no show ?thesis
      by (rule notE)
  qed
qed

lemma language_label_nonempty: "language_label l \<Longrightarrow> l \<noteq> ''''"
  by (auto simp: language_label_def)

lemma extractLanguage_nonempty:
  "extractLanguage new_URL url = Inr (Some l) \<Longrightarrow> l \<noteq> ''''"
  by (cases "new_URL url")
     (auto simp: extractLanguage_Inl extractLanguage_Inr_Some language_label_nonempty)

lemma Array_includes_set: "Array_includes ys x = (x \<in> set ys)"
  by (induction ys) auto

lemma String_of_Some [simp]: "String_of (Some s) = s"
  by (simp add: String_of_def)

lemma falsy_simps [simp]: "falsy None" "falsy (Some s) = (s = '''')"
  by (simp_all add: falsy_def)

lemma transformToGrokipedia_traced_cases [case_names not_article no_language no_name ok]:
  obtains
    "isArticlePage new_URL url = Inr False"
    "transformToGrokipedia_traced new_URL url =
       ([Call_isArticlePage], Inr (failure ''Not a Wikipedia article page''))"
  | "isArticlePage new_URL url = Inr True"
    "extractLanguage new_URL url = Inr None"
    "transformToGrokipedia_traced new_URL url =
       ([Call_isArticlePage, Call_extractLanguage],
        Inr (failure ''Could not extract language from URL''))"
  | l where
    "isArticlePage new_URL url = Inr True"
    "extractLanguage new_URL url = Inr (Some l)" "l \<noteq> ''''"
    "extractArticleName new_URL url = Inr None"
    "transformToGrokipedia_traced new_URL url =
       ([Call_isArticlePage, Call_extractLanguage, Call_extractArticleName],
        Inr (failure ''Could not extract article name from URL''))"
  | l a where
    "isArticlePage new_URL url = Inr True"
    "extractLanguage new_URL url = Inr (Some l)" "l \<noteq> ''''"
    "extractArticleName new_URL url = Inr (Some a)" "a \<noteq> ''''"
    "transformToGrokipedia_traced new_URL url =
       ([Call_isArticlePage, Call_extractLanguage, Call_extractArticleName],
        Inr \<lparr>success = True,
             grokipediaUrl = Some (GROKIPEDIA_BASE_URL @ ''/page/'' @ a),
             articleName = Some a, language = Some l, error = None\<rparr>)"
proof -
  obtain b where b: "isArticlePage new_URL url = Inr b"
    using isArticlePage_returns by blast
  obtain lo where lo: "extractLanguage new_URL url = Inr lo"
    using extractLanguage_returns by blast
  obtain ao where ao: "extractArticleName new_URL url = Inr ao"
    using extractArticleName_returns by blast
  show thesis
  proof (cases b)
    case False
    with b show thesis
      by (intro that(1)) (simp_all add: transformToGrokipedia_traced_def)
  next
    case True
    note bT = this
    show thesis
    proof (cases lo)
      case None
      with b bT lo show thesis
        by (intro that(2)) (simp_all add: transformToGrokipedia_traced_def)
    next
      case (Some l)
      with lo have l: "extractLanguage new_URL url = Inr (Some l)" by simp
      then have ln: "l \<noteq> ''''" by (rule extractLanguage_nonempty)
      show thesis
      proof (cases ao)
        case None
        with b bT l ln ao show thesis
          by (intro that(3) [of l]) (simp_all add: transformToGrokipedia_traced_def)
      next
        case (Some a)
        with ao have a: "extractArticleName new_URL url = Inr (Some a)" by simp
        then have an: "a \<noteq> ''''" by (rule extractArticleName_nonempty)
        from b bT l ln a an show thesis
          by (intro that(4) [of l a]) (simp_all add: transformToGrokipedia_traced_def)
      qed
    qed
  qed
qed

lemma failure_simps [simp]:
  "success (failure msg) = False" "error (failure msg) = Some msg"
  "grokipediaUrl (failure msg) = None" "articleName (failure msg) = None"
  "language (failure msg) = None"
  by (simp_all add: failure_def)

lemma replace_underscores_map:
  "replace_underscores s = map (\<lambda>c. if c = CHR ''_'' then CHR '' '' else c) s"
  by (induction s) simp_all

lemma no_underscore_left: "CHR ''_'' \<notin> set (replace_underscores s)"
  by (induction s) simp_all


lemma transformToGrokipedia_returns: "\<exists>r. transformToGrokipedia new_URL url = Inr r"
  by (cases new_URL url rule: transformToGrokipedia_traced_cases)
     (simp_all add: transformToGrokipedia_def)

lemma decodeArticleName_Inr:
  "dec s = Inr d \<Longrightarrow> decodeArticleName dec s = Inr (replace_underscores d)"
  by (simp add: decodeArticleName_def)

lemma decodeArticleName_Inl:
  "dec s = Inl e \<Longrightarrow> decodeArticleName dec s = Inr (replace_underscores s)"
  by (simp add: decodeArticleName_def)

lemma decodeArticleName_returns:
  "\<exists>r. decodeArticleName dec s = Inr r \<and> CHR ''_'' \<notin> set r"
  by (cases "dec s")
     (simp_all add: decodeArticleName_Inr decodeArticleName_Inl no_underscore_left)

lemma same_host_and_path_isArticlePage:
  "same_host_and_path (new_URL url) (new_URL' url) \<Longrightarrow>
   isArticlePage new_URL' url = isArticlePage new_URL url"
  by (cases "new_URL url"; cases "new_URL' url")
     (simp_all add: same_host_and_path_def isArticlePage_Inl isArticlePage_Inr)

lemma same_host_and_path_extractLanguage:
  "same_host_and_path (new_URL url) (new_URL' url) \<Longrightarrow>
   extractLanguage new_URL' url = extractLanguage new_URL url"
  by (cases "new_URL url"; cases "new_URL' url")
     (simp_all add: same_host_and_path_def extractLanguage_def split: option.splits)

lemma same_host_and_path_extractArticleName:
  "same_host_and_path (new_URL url) (new_URL' url) \<Longrightarrow>
   extractArticleName new_URL' url = extractArticleName new_URL url"
  by (cases "new_URL url"; cases "new_URL' url")
     (simp_all add: same_host_and_path_def extractArticleName_Inl extractArticleName_Inr)

lemma same_host_and_path_transform:
  assumes "same_host_and_path (new_URL url) (new_URL' url)"
  shows "transformToGrokipedia new_URL' url = transformToGrokipedia new_URL url"
  unfolding transformToGrokipedia_def transformToGrokipedia_traced_def
    same_host_and_path_isArticlePage [of new_URL url new_URL', OF assms]
    same_host_and_path_extractLanguage [of new_URL url new_URL', OF assms]
    same_host_and_path_extractArticleName [of new_URL url new_URL', OF assms]
  by (rule refl)

lemma transform_success_destination:
  assumes "transformToGrokipedia new_URL url = Inr r" and "success r"
  shows "\<exists>u ident. new_URL url = Inr u \<and> pathname u = ''/wiki/'' @ ident \<and> ident \<noteq> ''''
           \<and> extractArticleName new_URL url = Inr (Some ident)
           \<and> articleName r = Some ident
           \<and> grokipediaUrl r = Some (''https://grokipedia.com'' @ ''/page/'' @ ident)"
proof (cases new_URL url rule: transformToGrokipedia_traced_cases)
  case not_article
  with assms(1) have "r = failure ''Not a Wikipedia article page''"
    by (simp add: transformToGrokipedia_def)
  with assms(2) show ?thesis by simp
next
  case no_language
  with assms(1) have "r = failure ''Could not extract language from URL''"
    by (simp add: transformToGrokipedia_def)
  with assms(2) show ?thesis by simp
next
  case (no_name l)
  with assms(1) have "r = failure ''Could not extract article name from URL''"
    by (simp add: transformToGrokipedia_def)
  with assms(2) show ?thesis by simp
next
  case (ok l a)
  from ok(6) assms(1) have r: "articleName r = Some a"
    "grokipediaUrl r = Some (''https://grokipedia.com'' @ ''/page/'' @ a)"
    by (auto simp: transformToGrokipedia_def GROKIPEDIA_BASE_URL_def)
  from ok(4) obtain u where u: "new_URL url = Inr u"
    by (cases "new_URL url") (simp_all add: extractArticleName_Inl)
  with ok(4) have "startsWith (pathname u) ''/wiki/''" and a: "a = drop 6 (pathname u)"
    by (auto simp: extractArticleName_Inr split: if_splits)
  then have "pathname u = ''/wiki/'' @ a"
    by (auto simp: startsWith_iff)
  with u r ok(4,5) show ?thesis by blast
qed

section \<open>Facts about the URL parser\<close>

lemma no_query_mark_simps [simp]:
  "no_query_mark []"
  "no_query_mark (c # s) = (c \<noteq> CHR ''?'' \<and> c \<noteq> CHR ''#'' \<and> no_query_mark s)"
  "no_query_mark (s @ t) = (no_query_mark s \<and> no_query_mark t)"
  by (auto simp: no_query_mark_def)

lemma hex_digit_plain: "n < 16 \<Longrightarrow> hex_digit n \<noteq> CHR ''?'' \<and> hex_digit n \<noteq> CHR ''#''"
proof -
  assume "n < 16"
  then have "hex_digit n \<in> set ''0123456789ABCDEF''"
    unfolding hex_digit_def by (intro nth_mem) simp
  then show ?thesis by auto
qed

lemma percent_encode_byte_plain: "no_query_mark (percent_encode_byte c)"
proof -
  have "code c < 256" by (simp add: code_def)
  then have "code c div 16 < 16" "code c mod 16 < 16" by simp_all
  then show ?thesis
    by (simp add: percent_encode_byte_def hex_digit_plain)
qed

lemma path_segment_end_plain:
  assumes "\<forall>seg \<in> set path. no_query_mark seg" and "no_query_mark buffer"
  shows "\<forall>seg \<in> set (path_segment_end path buffer at_slash). no_query_mark seg"
  using assms by (auto simp: path_segment_end_def dest: in_set_butlastD)

lemma path_state_plain:
  assumes "\<forall>seg \<in> set path. no_query_mark seg" and "no_query_mark buffer"
  shows "\<forall>seg \<in> set (fst (path_state path buffer input)). no_query_mark seg"
  using assms
proof (induction input arbitrary: path buffer)
  case Nil
  then show ?case
    using path_segment_end_plain [of path buffer False] by simp
next
  case (Cons c cs)
  show ?case
  proof (cases "is_slash c")
    case True
    have "\<forall>seg \<in> set (path_segment_end path buffer True). no_query_mark seg"
      using Cons.prems by (rule path_segment_end_plain)
    from Cons.IH [OF this, of "[]"] True show ?thesis by simp
  next
    case False
    note ns = this
    show ?thesis
    proof (cases "c = CHR ''?'' \<or> c = CHR ''#''")
      case True
      with ns path_segment_end_plain [OF Cons.prems, of False] show ?thesis by simp
    next
      case False
      then have "no_query_mark
          (buffer @ (if path_percent_encode_set c then percent_encode_byte c else [c]))"
        using Cons.prems(2) by (simp add: percent_encode_byte_plain)
      from Cons.IH [OF Cons.prems(1) this] ns False show ?thesis by simp
    qed
  qed
qed

lemma path_start_state_plain:
  assumes "path_start_state rest = (path, rest')"
  shows "\<forall>seg \<in> set path. no_query_mark seg"
proof -
  have h: "\<forall>seg \<in> set (fst (path_state [] [] input)). no_query_mark seg" for input
    by (rule path_state_plain) simp_all
  show ?thesis
  proof (cases rest)
    case Nil
    with assms h [of "[]"] show ?thesis
      by (simp add: path_start_state_def del: path_state.simps)
  next
    case (Cons c cs)
    with assms h [of cs] h [of "c # cs"] show ?thesis
      by (cases "is_slash c") (simp_all add: path_start_state_def del: path_state.simps)
  qed
qed

lemma pathname_of_path_plain:
  "\<forall>seg \<in> set path. no_query_mark seg \<Longrightarrow>
   no_query_mark (concat (map (\<lambda>seg. CHR ''/'' # seg) path))"
  by (induction path) simp_all

lemma path_start_state_pathname:
  "path_start_state rest = (path, rest') \<Longrightarrow>
   no_query_mark (concat (map (\<lambda>seg. CHR ''/'' # seg) path))"
  by (rule pathname_of_path_plain) (rule path_start_state_plain)

lemma URL_parse_pathname_plain:
  assumes "URL_parse input = Parsed u"
  shows "no_query_mark (pathname u)"
  using assms
  by (auto simp: URL_parse_def Let_def
      split: option.splits prod.splits if_splits outcome.splits
      intro: path_start_state_pathname)

lemma URL_new_pathname_plain:
  "URL_parse input \<noteq> Outside \<Longrightarrow> URL_new outside input = Inr u \<Longrightarrow>
   no_query_mark (pathname u)"
  by (auto simp: URL_new_def URL_parse_pathname_plain split: outcome.splits)

lemma EXCLUDED_NAMESPACES_chars:
  assumes "p \<in> set EXCLUDED_NAMESPACES"
  shows "list_all namespace_char p" and "CHR '':'' \<in> set p" and "p \<noteq> []"
    and "last p = CHR '':''"
  using assms
  by (auto simp: EXCLUDED_NAMESPACES_def namespace_char_def ascii_alpha_def code_def)

lemma namespace_char_plain:
  assumes "namespace_char c"
  shows "\<not> tab_or_newline c" and "\<not> is_slash c" and "c \<noteq> CHR ''?''" and "c \<noteq> CHR ''#''"
    and "\<not> path_percent_encode_set c" and "\<not> c0_control_or_space c"
  using assms
  by (auto simp: namespace_char_def ascii_alpha_def code_def tab_or_newline_def is_slash_def
      path_percent_encode_set_def query_percent_encode_set_def
      c0_control_percent_encode_set_def c0_control_or_space_def)

lemma strip_and_clean_append:
  assumes "a \<noteq> []" and "\<not> c0_control_or_space (hd a)" and "\<not> c0_control_or_space (last a)"
    and "\<forall>c \<in> set a. \<not> tab_or_newline c"
  shows "strip_and_clean (a @ s) = a @ clean_suffix s"
proof -
  from assms(1,2) have d1: "dropWhile c0_control_or_space (a @ s) = a @ s"
    by (cases a) simp_all
  from assms(1) have ra: "rev a = last a # rev (butlast a)"
    by (metis append_butlast_last_id rev.simps(2) rev_append rev_rev_ident singleton_rev_conv
        append_Cons append_Nil)
  have "dropWhile c0_control_or_space (rev (a @ s)) =
      dropWhile c0_control_or_space (rev s) @ last a # rev (butlast a)"
    using assms(3) by (simp add: ra dropWhile_append3)
  then have "rev (dropWhile c0_control_or_space (rev (a @ s))) =
      (butlast a @ [last a]) @ rev (dropWhile c0_control_or_space (rev s))"
    by simp
  also have "butlast a @ [last a] = a"
    using assms(1) by simp
  finally have "rev (dropWhile c0_control_or_space (rev (a @ s))) =
      a @ rev (dropWhile c0_control_or_space (rev s))" .
  with d1 assms(4) show ?thesis
    by (simp add: strip_and_clean_def clean_suffix_def)
qed

lemma clean_suffix_subset: "set (clean_suffix s) \<subseteq> set s"
proof -
  have "set (dropWhile c0_control_or_space (rev s)) \<subseteq> set (rev s)"
    by (rule set_dropWhileD [THEN subsetI])
  then show ?thesis
    by (auto simp: clean_suffix_def)
qed

lemma path_state_plain_chars:
  assumes "list_all namespace_char q"
  shows "path_state path buffer (q @ t) = path_state path (buffer @ q) t"
  using assms
proof (induction q arbitrary: buffer)
  case Nil
  then show ?case by simp
next
  case (Cons c q)
  then have "namespace_char c" and q: "list_all namespace_char q" by simp_all
  from namespace_char_plain [OF this(1)] Cons.IH [OF q, of "buffer @ [c]"]
  show ?case by simp
qed

lemma path_state_no_slash:
  assumes "\<forall>c \<in> set t. \<not> is_slash c"
  shows "path_state path buffer t =
     (path_segment_end path
        (buffer @ percent_encode path_percent_encode_set
           (takeWhile (\<lambda>c. c \<noteq> CHR ''?'' \<and> c \<noteq> CHR ''#'') t)) False,
      dropWhile (\<lambda>c. c \<noteq> CHR ''?'' \<and> c \<noteq> CHR ''#'') t)"
  using assms
proof (induction t arbitrary: buffer)
  case Nil
  then show ?case by (simp add: percent_encode_def)
next
  case (Cons c t)
  then have ns: "\<not> is_slash c" and t: "\<forall>c \<in> set t. \<not> is_slash c" by simp_all
  show ?case
  proof (cases "c = CHR ''?'' \<or> c = CHR ''#''")
    case True
    with ns show ?thesis by (auto simp: percent_encode_def)
  next
    case False
    with ns Cons.IH [OF t, of "buffer @ (if path_percent_encode_set c
        then percent_encode_byte c else [c])"]
    show ?thesis by (simp add: percent_encode_def)
  qed
qed

lemma dot_segment_chars:
  assumes "double_dot_segment b \<or> single_dot_segment b"
  shows "set (map ascii_lowercase b) \<subseteq> set ''.%2e''"
  using assms by (auto simp: double_dot_segment_def single_dot_segment_def)

lemma colon_no_dot_segment:
  assumes "CHR '':'' \<in> set b"
  shows "\<not> double_dot_segment b" and "\<not> single_dot_segment b"
proof -
  have "ascii_lowercase (CHR '':'') = CHR '':''"
    by (simp add: ascii_lowercase_def code_def)
  with assms have "CHR '':'' \<in> set (map ascii_lowercase b)"
    by (metis image_eqI set_map)
  moreover have "CHR '':'' \<notin> set ''.%2e''" by simp
  ultimately show "\<not> double_dot_segment b" and "\<not> single_dot_segment b"
    using dot_segment_chars [of b] by blast+
qed

lemma host_parser_en: "host_parser ''en.wikipedia.org'' = Parsed ''en.wikipedia.org''"
  by code_simp

lemma scheme_state_en:
  "scheme_state (''https://en.wikipedia.org/wiki/'' @ rest) =
     Some (''https'', ''//en.wikipedia.org/wiki/'' @ rest)"
  by (simp add: scheme_state_def scheme_char_def ascii_alpha_def ascii_digit_def code_def
      ascii_lowercase_def)

lemma authority_en:
  "dropWhile is_slash (''//en.wikipedia.org/wiki/'' @ rest) = ''en.wikipedia.org/wiki/'' @ rest"
  "takeWhile (\<lambda>c. \<not> authority_end c) (''en.wikipedia.org/wiki/'' @ rest) = ''en.wikipedia.org''"
  "dropWhile (\<lambda>c. \<not> authority_end c) (''en.wikipedia.org/wiki/'' @ rest) = ''/wiki/'' @ rest"
  "authority_state False [] ''en.wikipedia.org'' = (False, ''en.wikipedia.org'')"
  "host_state False [] ''en.wikipedia.org'' = (''en.wikipedia.org'', None)"
  by (simp_all add: is_slash_def authority_end_def)

lemma path_start_wiki:
  "path_start_state (''/wiki/'' @ rest) = path_state [''wiki''] [] rest"
  by (simp add: path_start_state_def is_slash_def path_percent_encode_set_def
      query_percent_encode_set_def c0_control_percent_encode_set_def code_def
      path_segment_end_def double_dot_segment_def single_dot_segment_def ascii_lowercase_def)

lemma URL_parse_I:
  assumes "scheme_state (strip_and_clean input) = Some (scheme, rest)"
    and "scheme \<in> set [''http'', ''https'', ''ws'', ''wss'', ''ftp'']"
    and "authority_state False []
           (takeWhile (\<lambda>c. \<not> authority_end c) (dropWhile is_slash rest)) = (seen, hostport)"
    and "host_state False [] hostport = (hostbuf, None)"
    and "hostbuf \<noteq> []" and "host_parser hostbuf = Parsed host"
    and "path_start_state (dropWhile (\<lambda>c. \<not> authority_end c) (dropWhile is_slash rest)) =
           (path, rest3)"
  shows "URL_parse input =
     Parsed \<lparr>hostname = host, pathname = concat (map (\<lambda>seg. CHR ''/'' # seg) path),
             search = fst (query_and_fragment rest3),
             hash = snd (query_and_fragment rest3)\<rparr>"
  using assms by (simp add: URL_parse_def Let_def split: prod.splits)

lemma URL_parse_namespace:
  assumes p: "p \<in> set EXCLUDED_NAMESPACES" and s: "\<forall>c \<in> set s. \<not> is_slash c"
  shows "\<exists>e q f. URL_parse (''https://en.wikipedia.org/wiki/'' @ p @ s) =
     Parsed \<lparr>hostname = ''en.wikipedia.org'', pathname = ''/wiki/'' @ p @ e,
             search = q, hash = f\<rparr>"
proof -
  note pc = EXCLUDED_NAMESPACES_chars [OF p]
  let ?a = "''https://en.wikipedia.org/wiki/'' @ p"
  let ?t = "clean_suffix s"
  let ?nq = "\<lambda>c. c \<noteq> CHR ''?'' \<and> c \<noteq> CHR ''#''"
  let ?e = "percent_encode path_percent_encode_set (takeWhile ?nq ?t)"
  have tab: "\<forall>c \<in> set ?a. \<not> tab_or_newline c"
    using pc(1) namespace_char_plain(1)
    by (auto simp: list_all_iff tab_or_newline_def code_def)
  have lastp: "\<not> c0_control_or_space (last ?a)"
    using pc(3,4) by (simp add: c0_control_or_space_def code_def)
  have "strip_and_clean (?a @ s) = ?a @ ?t"
    using tab lastp by (intro strip_and_clean_append) (simp_all add: c0_control_or_space_def code_def)
  then have clean: "strip_and_clean (''https://en.wikipedia.org/wiki/'' @ p @ s) =
      ''https://en.wikipedia.org/wiki/'' @ p @ ?t"
    by simp
  have t: "\<forall>c \<in> set ?t. \<not> is_slash c"
    using s clean_suffix_subset [of s] by blast
  have "path_state [''wiki''] [] (p @ ?t) = path_state [''wiki''] ([] @ p) ?t"
    by (rule path_state_plain_chars) (rule pc(1))
  also have "\<dots> = (path_segment_end [''wiki''] (p @ ?e) False, dropWhile ?nq ?t)"
    using path_state_no_slash [OF t, of "[''wiki'']" p] by simp
  also have "path_segment_end [''wiki''] (p @ ?e) False = [''wiki'', p @ ?e]"
    using colon_no_dot_segment [of "p @ ?e"] pc(2) by (simp add: path_segment_end_def)
  finally have path: "path_start_state (''/wiki/'' @ p @ ?t) =
      ([''wiki'', p @ ?e], dropWhile ?nq ?t)"
    by (simp only: path_start_wiki)
  have a1: "scheme_state (strip_and_clean (''https://en.wikipedia.org/wiki/'' @ p @ s)) =
      Some (''https'', ''//en.wikipedia.org/wiki/'' @ p @ ?t)"
    by (simp only: clean scheme_state_en)
  have a2: "''https'' \<in> set [''http'', ''https'', ''ws'', ''wss'', ''ftp'']"
    by simp
  have a3: "authority_state False []
      (takeWhile (\<lambda>c. \<not> authority_end c)
        (dropWhile is_slash (''//en.wikipedia.org/wiki/'' @ p @ ?t))) =
      (False, ''en.wikipedia.org'')"
    by (simp only: authority_en)
  have a5: "''en.wikipedia.org'' \<noteq> []"
    by simp
  have a7: "path_start_state (dropWhile (\<lambda>c. \<not> authority_end c)
        (dropWhile is_slash (''//en.wikipedia.org/wiki/'' @ p @ ?t))) =
      ([''wiki'', p @ ?e], dropWhile ?nq ?t)"
    by (simp only: authority_en path)
  have "concat (map (\<lambda>seg. CHR ''/'' # seg) [''wiki'', p @ ?e]) = ''/wiki/'' @ p @ ?e"
    by simp
  with URL_parse_I [OF a1 a2 a3 authority_en(5) a5 host_parser_en a7]
  show ?thesis by auto
qed

lemma excluded_path_not_article:
  assumes "new_URL url = Inr u" and "p \<in> set EXCLUDED_NAMESPACES"
    and "pathname u = ''/wiki/'' @ p @ s"
  shows "isArticlePage new_URL url = Inr False"
proof -
  from assms(3) have "drop 6 (pathname u) = p @ s" by simp
  then have "startsWith (drop 6 (pathname u)) p"
    by (simp add: startsWith_iff)
  with assms(1,2) show ?thesis
    by (auto simp: isArticlePage_Inr)
qed

lemma isArticlePage_namespace_url:
  assumes "p \<in> set EXCLUDED_NAMESPACES" and "\<forall>c \<in> set s. \<not> is_slash c"
  shows "isArticlePage (URL_new outside) (''https://en.wikipedia.org/wiki/'' @ p @ s) = Inr False"
proof -
  from URL_parse_namespace [OF assms] obtain e q f where
    "URL_parse (''https://en.wikipedia.org/wiki/'' @ p @ s) =
       Parsed \<lparr>hostname = ''en.wikipedia.org'', pathname = ''/wiki/'' @ p @ e,
            search = q, hash = f\<rparr>"
    by blast
  then have u: "URL_new outside (''https://en.wikipedia.org/wiki/'' @ p @ s) =
       Inr \<lparr>hostname = ''en.wikipedia.org'', pathname = ''/wiki/'' @ p @ e,
            search = q, hash = f\<rparr>"
    by (simp only: URL_new_def outcome.case)
  have "pathname \<lparr>hostname = ''en.wikipedia.org'', pathname = ''/wiki/'' @ p @ e,
            search = q, hash = f\<rparr> = ''/wiki/'' @ p @ e"
    by simp
  from excluded_path_not_article [where new_URL = "URL_new outside", OF u assms(1) this]
  show ?thesis .
qed


lemma transform_not_article:
  "isArticlePage new_URL url = Inr False \<Longrightarrow>
   transformToGrokipedia new_URL url = Inr (failure ''Not a Wikipedia article page'')"
  by (simp add: transformToGrokipedia_def transformToGrokipedia_traced_def)

section \<open>The platform functions at concrete inputs\<close>

lemma URL_parse_sami:
  "URL_parse ''https://en.wikipedia.org/wiki/S%C3%A1mi_people?action=history#top'' =
     Parsed \<lparr>hostname = ''en.wikipedia.org'', pathname = ''/wiki/S%C3%A1mi_people'',
             search = ''?action=history'', hash = ''#top''\<rparr>"
  by code_simp

lemma URL_new_sami:
  "URL_new outside ''https://en.wikipedia.org/wiki/S%C3%A1mi_people?action=history#top'' =
     Inr \<lparr>hostname = ''en.wikipedia.org'', pathname = ''/wiki/S%C3%A1mi_people'',
          search = ''?action=history'', hash = ''#top''\<rparr>"
  by (simp add: URL_new_def URL_parse_sami)

lemma URL_parse_special:
  "URL_parse ''https://en.wikipedia.org/wiki/Special:Search'' =
     Parsed \<lparr>hostname = ''en.wikipedia.org'', pathname = ''/wiki/Special:Search'',
             search = '''', hash = ''''\<rparr>"
  by code_simp

lemma URL_new_special:
  "URL_new outside ''https://en.wikipedia.org/wiki/Special:Search'' =
     Inr \<lparr>hostname = ''en.wikipedia.org'', pathname = ''/wiki/Special:Search'',
          search = '''', hash = ''''\<rparr>"
  by (simp add: URL_new_def URL_parse_special)

lemma URL_parse_mobile:
  "URL_parse ''https://en.m.wikipedia.org/wiki/Foo'' =
     Parsed \<lparr>hostname = ''en.m.wikipedia.org'', pathname = ''/wiki/Foo'',
             search = '''', hash = ''''\<rparr>"
  by code_simp

lemma URL_new_mobile:
  "URL_new outside ''https://en.m.wikipedia.org/wiki/Foo'' =
     Inr \<lparr>hostname = ''en.m.wikipedia.org'', pathname = ''/wiki/Foo'',
          search = '''', hash = ''''\<rparr>"
  by (simp add: URL_new_def URL_parse_mobile)

lemma URL_parse_bare:
  "URL_parse ''https://en.wikipedia.org/wiki/'' =
     Parsed \<lparr>hostname = ''en.wikipedia.org'', pathname = ''/wiki/'',
             search = '''', hash = ''''\<rparr>"
  by code_simp

lemma URL_new_bare:
  "URL_new outside ''https://en.wikipedia.org/wiki/'' =
     Inr \<lparr>hostname = ''en.wikipedia.org'', pathname = ''/wiki/'',
          search = '''', hash = ''''\<rparr>"
  by (simp add: URL_new_def URL_parse_bare)

lemma URL_parse_matchbox:
  "URL_parse ''https://en.wikipedia.org/wiki/Matchbox_Twenty'' =
     Parsed \<lparr>hostname = ''en.wikipedia.org'', pathname = ''/wiki/Matchbox_Twenty'',
             search = '''', hash = ''''\<rparr>"
  by code_simp

lemma URL_new_matchbox:
  "URL_new outside ''https://en.wikipedia.org/wiki/Matchbox_Twenty'' =
     Inr \<lparr>hostname = ''en.wikipedia.org'', pathname = ''/wiki/Matchbox_Twenty'',
          search = '''', hash = ''''\<rparr>"
  by (simp add: URL_new_def URL_parse_matchbox)

lemma URL_parse_dot_segment:
  "URL_parse ''https://en.wikipedia.org/wiki/Special:/../Foo'' =
     Parsed \<lparr>hostname = ''en.wikipedia.org'', pathname = ''/wiki/Foo'',
             search = '''', hash = ''''\<rparr>"
  by code_simp

lemma URL_new_dot_segment:
  "URL_new outside ''https://en.wikipedia.org/wiki/Special:/../Foo'' =
     Inr \<lparr>hostname = ''en.wikipedia.org'', pathname = ''/wiki/Foo'',
          search = '''', hash = ''''\<rparr>"
  by (simp add: URL_new_def URL_parse_dot_segment)

lemma URL_parse_uppercase:
  "URL_parse ''https://EN.wikipedia.org/wiki/Article'' =
     Parsed \<lparr>hostname = ''en.wikipedia.org'', pathname = ''/wiki/Article'',
             search = '''', hash = ''''\<rparr>"
  by code_simp

lemma URL_new_uppercase:
  "URL_new outside ''https://EN.wikipedia.org/wiki/Article'' =
     Inr \<lparr>hostname = ''en.wikipedia.org'', pathname = ''/wiki/Article'',
          search = '''', hash = ''''\<rparr>"
  by (simp add: URL_new_def URL_parse_uppercase)

lemma URL_parse_example_com:
  "URL_parse ''https://example.com/wiki/Foo'' =
     Parsed \<lparr>hostname = ''example.com'', pathname = ''/wiki/Foo'', search = '''', hash = ''''\<rparr>"
  by code_simp

lemma URL_new_example_com:
  "URL_new outside ''https://example.com/wiki/Foo'' =
     Inr \<lparr>hostname = ''example.com'', pathname = ''/wiki/Foo'', search = '''', hash = ''''\<rparr>"
  by (simp add: URL_new_def URL_parse_example_com)

lemma URL_parse_main_page:
  "URL_parse ''https://en.wikipedia.org/wiki/Main_Page'' =
     Parsed \<lparr>hostname = ''en.wikipedia.org'', pathname = ''/wiki/Main_Page'',
             search = '''', hash = ''''\<rparr>"
  by code_simp

lemma URL_new_main_page:
  "URL_new outside ''https://en.wikipedia.org/wiki/Main_Page'' =
     Inr \<lparr>hostname = ''en.wikipedia.org'', pathname = ''/wiki/Main_Page'',
          search = '''', hash = ''''\<rparr>"
  by (simp add: URL_new_def URL_parse_main_page)

lemma URL_parse_bare_mobile:
  "URL_parse ''https://en.m.wikipedia.org/wiki/'' =
     Parsed \<lparr>hostname = ''en.m.wikipedia.org'', pathname = ''/wiki/'',
             search = '''', hash = ''''\<rparr>"
  by code_simp

lemma URL_new_bare_mobile:
  "URL_new outside ''https://en.m.wikipedia.org/wiki/'' =
     Inr \<lparr>hostname = ''en.m.wikipedia.org'', pathname = ''/wiki/'',
          search = '''', hash = ''''\<rparr>"
  by (simp add: URL_new_def URL_parse_bare_mobile)

lemma URL_parse_not_a_url: "URL_parse ''not a url'' = Failure"
  by code_simp

lemma URL_new_not_a_url: "URL_new outside ''not a url'' = Inl TypeError"
  by (simp add: URL_new_def URL_parse_not_a_url)

lemma decodeURIComponent_sami:
  "decodeURIComponent ''S%C3%A1mi_people'' =
     Inr [CHR ''S'', CHR 0xC3, CHR 0xA1, CHR ''m'', CHR ''i'', CHR ''_'', CHR ''p'', CHR ''e'',
          CHR ''o'', CHR ''p'', CHR ''l'', CHR ''e'']"
  by code_simp

lemma decodeURIComponent_invalid: "decodeURIComponent ''Invalid%ZZ_x'' = Inl URIError"
  by code_simp

lemmas eval_defs =
  EXCLUDED_NAMESPACES_def startsWith_def endsWith_def match_lang_def lang_attempt_def
  match_simple_def is_lower_def extractLanguage_def GROKIPEDIA_BASE_URL_def
  transformToGrokipedia_def transformToGrokipedia_traced_def

lemma special_facts:
  "isArticlePage (URL_new outside) ''https://en.wikipedia.org/wiki/Special:Search'' = Inr False"
  by (simp add: isArticlePage_Inr [where new_URL = "URL_new outside", OF URL_new_special] eval_defs)

lemma mobile_facts:
  "isArticlePage (URL_new outside) ''https://en.m.wikipedia.org/wiki/Foo'' = Inr True"
  "extractLanguage (URL_new outside) ''https://en.m.wikipedia.org/wiki/Foo'' = Inr None"
  by (simp_all add: isArticlePage_Inr [where new_URL = "URL_new outside", OF URL_new_mobile]
      URL_new_mobile eval_defs)

lemma bare_facts:
  "isArticlePage (URL_new outside) ''https://en.wikipedia.org/wiki/'' = Inr True"
  "extractLanguage (URL_new outside) ''https://en.wikipedia.org/wiki/'' = Inr (Some ''en'')"
  "extractArticleName (URL_new outside) ''https://en.wikipedia.org/wiki/'' = Inr None"
  by (simp_all add: isArticlePage_Inr [where new_URL = "URL_new outside", OF URL_new_bare]
      extractArticleName_Inr [where new_URL = "URL_new outside", OF URL_new_bare]
      URL_new_bare eval_defs)

lemma bare_mobile_facts:
  "isArticlePage (URL_new outside) ''https://en.m.wikipedia.org/wiki/'' = Inr True"
  "extractLanguage (URL_new outside) ''https://en.m.wikipedia.org/wiki/'' = Inr None"
  "extractArticleName (URL_new outside) ''https://en.m.wikipedia.org/wiki/'' = Inr None"
  "transformToGrokipedia (URL_new outside) ''https://en.m.wikipedia.org/wiki/'' =
     Inr (failure ''Could not extract language from URL'')"
  by (simp_all add: isArticlePage_Inr [where new_URL = "URL_new outside", OF URL_new_bare_mobile]
      extractArticleName_Inr [where new_URL = "URL_new outside", OF URL_new_bare_mobile]
      URL_new_bare_mobile eval_defs)

lemma matchbox_facts:
  "isArticlePage (URL_new outside) ''https://en.wikipedia.org/wiki/Matchbox_Twenty'' = Inr True"
  "extractLanguage (URL_new outside) ''https://en.wikipedia.org/wiki/Matchbox_Twenty'' = Inr (Some ''en'')"
  "extractArticleName (URL_new outside) ''https://en.wikipedia.org/wiki/Matchbox_Twenty'' =
     Inr (Some ''Matchbox_Twenty'')"
  by (simp_all add: isArticlePage_Inr [where new_URL = "URL_new outside", OF URL_new_matchbox]
      extractArticleName_Inr [where new_URL = "URL_new outside", OF URL_new_matchbox]
      URL_new_matchbox eval_defs)

lemma sami_facts:
  "isArticlePage (URL_new outside)
     ''https://en.wikipedia.org/wiki/S%C3%A1mi_people?action=history#top'' = Inr True"
  "extractLanguage (URL_new outside)
     ''https://en.wikipedia.org/wiki/S%C3%A1mi_people?action=history#top'' = Inr (Some ''en'')"
  "extractArticleName (URL_new outside)
     ''https://en.wikipedia.org/wiki/S%C3%A1mi_people?action=history#top'' =
     Inr (Some ''S%C3%A1mi_people'')"
  by (simp_all add: isArticlePage_Inr [where new_URL = "URL_new outside", OF URL_new_sami]
      extractArticleName_Inr [where new_URL = "URL_new outside", OF URL_new_sami]
      URL_new_sami eval_defs)

lemma transform_sami:
  "transformToGrokipedia (URL_new outside)
       ''https://en.wikipedia.org/wiki/S%C3%A1mi_people?action=history#top'' =
     Inr \<lparr>success = True,
          grokipediaUrl = Some ''https://grokipedia.com/page/S%C3%A1mi_people'',
          articleName = Some ''S%C3%A1mi_people'', language = Some ''en'', error = None\<rparr>"
  by (simp add: transformToGrokipedia_def transformToGrokipedia_traced_def sami_facts
      GROKIPEDIA_BASE_URL_def)

lemma example_com_facts:
  "isArticlePage (URL_new outside) ''https://example.com/wiki/Foo'' = Inr False"
  "extractArticleName (URL_new outside) ''https://example.com/wiki/Foo'' = Inr (Some ''Foo'')"
  by (simp_all add: isArticlePage_Inr [where new_URL = "URL_new outside", OF URL_new_example_com]
      extractArticleName_Inr [where new_URL = "URL_new outside", OF URL_new_example_com] eval_defs)

section \<open>The claims of the specification\<close>

text \<open>
  C1. Whenever \<open>transformToGrokipedia\<close> succeeds, the URL parsed, its path is
  \<^verbatim>\<open>/wiki/\<close> followed by a non-empty identifier, that identifier is what
  \<open>extractArticleName\<close> returns and what the result carries as article name, and the
  destination is \<^verbatim>\<open>https://grokipedia.com\<close>, \<^verbatim>\<open>/page/\<close> and the identifier,
  concatenated, character for character as it stands in the parsed path. The query
  string and the fragment have no part in it: two parses that agree on host name and
  path give the same outcome, and on every input that \<open>URL_parse\<close> covers (it is
  not \<open>Outside\<close>) the destination contains neither \<^verbatim>\<open>?\<close> nor \<^verbatim>\<open>#\<close>, whatever the
  constructor does on the other inputs.
\<close>

theorem transformToGrokipedia_destination:
  "(transformToGrokipedia new_URL url = Inr r \<and> success r \<longrightarrow>
      (\<exists>u ident. new_URL url = Inr u \<and> pathname u = ''/wiki/'' @ ident \<and> ident \<noteq> ''''
           \<and> extractArticleName new_URL url = Inr (Some ident)
           \<and> articleName r = Some ident
           \<and> grokipediaUrl r = Some (''https://grokipedia.com'' @ ''/page/'' @ ident)))
   \<and> (same_host_and_path (new_URL url) (new_URL' url) \<longrightarrow>
        transformToGrokipedia new_URL' url = transformToGrokipedia new_URL url)
   \<and> (URL_parse url \<noteq> Outside
        \<and> transformToGrokipedia (URL_new outside) url = Inr r \<and> success r \<longrightarrow>
        (\<exists>d. grokipediaUrl r = Some d \<and> CHR ''?'' \<notin> set d \<and> CHR ''#'' \<notin> set d))"
proof -
  have plain: "\<exists>d. grokipediaUrl r = Some d \<and> CHR ''?'' \<notin> set d \<and> CHR ''#'' \<notin> set d"
    if covered: "URL_parse url \<noteq> Outside"
      and "transformToGrokipedia (URL_new outside) url = Inr r" and "success r"
  proof -
    from transform_success_destination [OF that(2,3)] obtain u ident where
      u: "URL_new outside url = Inr u" and p: "pathname u = ''/wiki/'' @ ident"
      and d: "grokipediaUrl r = Some (''https://grokipedia.com'' @ ''/page/'' @ ident)"
      by blast
    from URL_new_pathname_plain [OF covered u] p have "no_query_mark ident"
      by simp
    then have "no_query_mark (''https://grokipedia.com'' @ ''/page/'' @ ident)"
      by simp
    with d show ?thesis
      by (auto simp: no_query_mark_def)
  qed
  with transform_success_destination [of new_URL url r]
    same_host_and_path_transform [of new_URL url new_URL']
  show ?thesis by blast
qed

text \<open>
  The theorem of C1 at a URL with an encoded identifier, a query string and a fragment,
  which \<open>URL_parse\<close> covers.
\<close>

theorem transformToGrokipedia_destination_witness:
  "transformToGrokipedia (URL_new (\<lambda>x. Inl TypeError))
       ''https://en.wikipedia.org/wiki/S%C3%A1mi_people?action=history#top'' =
     Inr \<lparr>success = True,
          grokipediaUrl = Some ''https://grokipedia.com/page/S%C3%A1mi_people'',
          articleName = Some ''S%C3%A1mi_people'', language = Some ''en'', error = None\<rparr>
   \<and> (\<exists>u ident.
         URL_new (\<lambda>x. Inl TypeError) ''https://en.wikipedia.org/wiki/S%C3%A1mi_people?action=history#top'' = Inr u
         \<and> pathname u = ''/wiki/'' @ ident \<and> ident \<noteq> ''''
         \<and> extractArticleName (URL_new (\<lambda>x. Inl TypeError))
              ''https://en.wikipedia.org/wiki/S%C3%A1mi_people?action=history#top'' =
             Inr (Some ident)
         \<and> Some ''S%C3%A1mi_people'' = Some ident
         \<and> Some ''https://grokipedia.com/page/S%C3%A1mi_people'' =
             Some (''https://grokipedia.com'' @ ''/page/'' @ ident))
   \<and> transformToGrokipedia
       (\<lambda>x. Inr \<lparr>hostname = ''en.wikipedia.org'', pathname = ''/wiki/S%C3%A1mi_people'',
                  search = '''', hash = ''''\<rparr>)
       ''https://en.wikipedia.org/wiki/S%C3%A1mi_people?action=history#top'' =
     transformToGrokipedia (URL_new (\<lambda>x. Inl TypeError))
       ''https://en.wikipedia.org/wiki/S%C3%A1mi_people?action=history#top''
   \<and> URL_parse ''https://en.wikipedia.org/wiki/S%C3%A1mi_people?action=history#top'' \<noteq> Outside
   \<and> (\<exists>d. Some ''https://grokipedia.com/page/S%C3%A1mi_people'' = Some d
          \<and> CHR ''?'' \<notin> set d \<and> CHR ''#'' \<notin> set d)"
proof -
  have same: "same_host_and_path
      (URL_new (\<lambda>x. Inl TypeError) ''https://en.wikipedia.org/wiki/S%C3%A1mi_people?action=history#top'')
      (Inr \<lparr>hostname = ''en.wikipedia.org'', pathname = ''/wiki/S%C3%A1mi_people'',
            search = '''', hash = ''''\<rparr>)"
    by (simp add: URL_new_sami same_host_and_path_def)
  show ?thesis
    using transformToGrokipedia_destination
      [of "URL_new (\<lambda>x. Inl TypeError)" "''https://en.wikipedia.org/wiki/S%C3%A1mi_people?action=history#top''"
        "\<lparr>success = True,
          grokipediaUrl = Some ''https://grokipedia.com/page/S%C3%A1mi_people'',
          articleName = Some ''S%C3%A1mi_people'', language = Some ''en'', error = None\<rparr>"
        "\<lambda>x. Inr \<lparr>hostname = ''en.wikipedia.org'', pathname = ''/wiki/S%C3%A1mi_people'',
                  search = '''', hash = ''''\<rparr>" "\<lambda>x. Inl TypeError"]
      transform_sami same URL_parse_sami
    by simp
qed

text \<open>
  C2. \<open>transformToGrokipedia\<close> calls \<open>isArticlePage\<close> first. When that returns
  false it makes no other call and returns the failure
  \<^verbatim>\<open>Not a Wikipedia article page\<close>. Otherwise it calls \<open>extractLanguage\<close>; when no
  language comes back it makes no further call and returns the failure
  \<^verbatim>\<open>Could not extract language from URL\<close>.
  Otherwise it calls \<open>extractArticleName\<close>; when no name comes back it returns the
  failure \<^verbatim>\<open>Could not extract article name from URL\<close>, and when a name comes back it
  returns a result with \<open>success = True\<close>. One of these four cases always applies, a
  failure has \<open>success = False\<close> and its message as \<open>error\<close>, and the three messages
  are pairwise distinct.
\<close>

theorem transformToGrokipedia_order:
  "(isArticlePage new_URL url = Inr False \<longrightarrow>
      transformToGrokipedia_traced new_URL url =
        ([Call_isArticlePage], Inr (failure ''Not a Wikipedia article page'')))
   \<and> (isArticlePage new_URL url = Inr True \<and> extractLanguage new_URL url = Inr None \<longrightarrow>
      transformToGrokipedia_traced new_URL url =
        ([Call_isArticlePage, Call_extractLanguage],
         Inr (failure ''Could not extract language from URL'')))
   \<and> (isArticlePage new_URL url = Inr True \<and> extractLanguage new_URL url = Inr (Some l)
        \<and> extractArticleName new_URL url = Inr None \<longrightarrow>
      transformToGrokipedia_traced new_URL url =
        ([Call_isArticlePage, Call_extractLanguage, Call_extractArticleName],
         Inr (failure ''Could not extract article name from URL'')))
   \<and> (isArticlePage new_URL url = Inr True \<and> extractLanguage new_URL url = Inr (Some l)
        \<and> extractArticleName new_URL url = Inr (Some a) \<longrightarrow>
      (\<exists>r. transformToGrokipedia_traced new_URL url =
              ([Call_isArticlePage, Call_extractLanguage, Call_extractArticleName], Inr r)
            \<and> success r = True))
   \<and> (isArticlePage new_URL url = Inr False \<or> isArticlePage new_URL url = Inr True)
   \<and> (extractLanguage new_URL url = Inr None
        \<or> (\<exists>l'. extractLanguage new_URL url = Inr (Some l')))
   \<and> (extractArticleName new_URL url = Inr None
        \<or> (\<exists>a'. extractArticleName new_URL url = Inr (Some a')))
   \<and> success (failure msg) = False \<and> error (failure msg) = Some msg
   \<and> distinct [''Not a Wikipedia article page'', ''Could not extract language from URL'',
        ''Could not extract article name from URL'']"
proof -
  have t1: "extractLanguage new_URL url = Inr None
      \<or> (\<exists>l'. extractLanguage new_URL url = Inr (Some l'))"
    using extractLanguage_returns [of new_URL url] by (metis option.exhaust)
  have t2: "extractArticleName new_URL url = Inr None
      \<or> (\<exists>a'. extractArticleName new_URL url = Inr (Some a'))"
    using extractArticleName_returns [of new_URL url] by (metis option.exhaust)
  show ?thesis
    by (cases new_URL url rule: transformToGrokipedia_traced_cases) (simp_all add: t1 t2)
qed

text \<open>
  The theorem of C2 at four URLs, one for each case: an excluded namespace, a host
  with two subdomain labels, a bare \<^verbatim>\<open>/wiki/\<close> path, and an article.
\<close>

theorem transformToGrokipedia_order_witness:
  "isArticlePage (URL_new (\<lambda>x. Inl TypeError)) ''https://en.wikipedia.org/wiki/Special:Search'' = Inr False
   \<and> transformToGrokipedia_traced (URL_new (\<lambda>x. Inl TypeError)) ''https://en.wikipedia.org/wiki/Special:Search'' =
       ([Call_isArticlePage], Inr (failure ''Not a Wikipedia article page''))
   \<and> isArticlePage (URL_new (\<lambda>x. Inl TypeError)) ''https://en.m.wikipedia.org/wiki/Foo'' = Inr True
   \<and> extractLanguage (URL_new (\<lambda>x. Inl TypeError)) ''https://en.m.wikipedia.org/wiki/Foo'' = Inr None
   \<and> transformToGrokipedia_traced (URL_new (\<lambda>x. Inl TypeError)) ''https://en.m.wikipedia.org/wiki/Foo'' =
       ([Call_isArticlePage, Call_extractLanguage],
        Inr (failure ''Could not extract language from URL''))
   \<and> isArticlePage (URL_new (\<lambda>x. Inl TypeError)) ''https://en.wikipedia.org/wiki/'' = Inr True
   \<and> extractLanguage (URL_new (\<lambda>x. Inl TypeError)) ''https://en.wikipedia.org/wiki/'' = Inr (Some ''en'')
   \<and> extractArticleName (URL_new (\<lambda>x. Inl TypeError)) ''https://en.wikipedia.org/wiki/'' = Inr None
   \<and> transformToGrokipedia_traced (URL_new (\<lambda>x. Inl TypeError)) ''https://en.wikipedia.org/wiki/'' =
       ([Call_isArticlePage, Call_extractLanguage, Call_extractArticleName],
        Inr (failure ''Could not extract article name from URL''))
   \<and> isArticlePage (URL_new (\<lambda>x. Inl TypeError)) ''https://en.wikipedia.org/wiki/Matchbox_Twenty'' = Inr True
   \<and> extractLanguage (URL_new (\<lambda>x. Inl TypeError)) ''https://en.wikipedia.org/wiki/Matchbox_Twenty'' =
       Inr (Some ''en'')
   \<and> extractArticleName (URL_new (\<lambda>x. Inl TypeError)) ''https://en.wikipedia.org/wiki/Matchbox_Twenty'' =
       Inr (Some ''Matchbox_Twenty'')
   \<and> (\<exists>r. transformToGrokipedia_traced (URL_new (\<lambda>x. Inl TypeError))
              ''https://en.wikipedia.org/wiki/Matchbox_Twenty'' =
              ([Call_isArticlePage, Call_extractLanguage, Call_extractArticleName], Inr r)
            \<and> success r = True)"
proof -
  have a: "transformToGrokipedia_traced (URL_new (\<lambda>x. Inl TypeError)) ''https://en.wikipedia.org/wiki/Special:Search'' =
       ([Call_isArticlePage], Inr (failure ''Not a Wikipedia article page''))"
    using transformToGrokipedia_order
      [of "URL_new (\<lambda>x. Inl TypeError)" "''https://en.wikipedia.org/wiki/Special:Search''" "''en''" "''x''" "''m''"]
      special_facts
    by simp
  have b: "transformToGrokipedia_traced (URL_new (\<lambda>x. Inl TypeError)) ''https://en.m.wikipedia.org/wiki/Foo'' =
       ([Call_isArticlePage, Call_extractLanguage],
        Inr (failure ''Could not extract language from URL''))"
    using transformToGrokipedia_order
      [of "URL_new (\<lambda>x. Inl TypeError)" "''https://en.m.wikipedia.org/wiki/Foo''" "''en''" "''x''" "''m''"]
      mobile_facts
    by simp
  have c: "transformToGrokipedia_traced (URL_new (\<lambda>x. Inl TypeError)) ''https://en.wikipedia.org/wiki/'' =
       ([Call_isArticlePage, Call_extractLanguage, Call_extractArticleName],
        Inr (failure ''Could not extract article name from URL''))"
    using transformToGrokipedia_order
      [of "URL_new (\<lambda>x. Inl TypeError)" "''https://en.wikipedia.org/wiki/''" "''en''" "''x''" "''m''"]
      bare_facts
    by simp
  have d: "\<exists>r. transformToGrokipedia_traced (URL_new (\<lambda>x. Inl TypeError))
              ''https://en.wikipedia.org/wiki/Matchbox_Twenty'' =
              ([Call_isArticlePage, Call_extractLanguage, Call_extractArticleName], Inr r)
            \<and> success r = True"
    using transformToGrokipedia_order
      [of "URL_new (\<lambda>x. Inl TypeError)" "''https://en.wikipedia.org/wiki/Matchbox_Twenty''" "''en''"
        "''Matchbox_Twenty''" "''m''"]
      matchbox_facts
    by simp
  from a b c d special_facts mobile_facts bare_facts matchbox_facts show ?thesis
    by simp
qed

text \<open>
  C3, as amended. For every namespace prefix \<open>p\<close> of \<open>EXCLUDED_NAMESPACES\<close> and
  every URL whose parsed path is \<^verbatim>\<open>/wiki/\<close>, then \<open>p\<close>, then any suffix \<open>s\<close>,
  \<open>isArticlePage\<close> returns false, whatever the host: the prefix is looked for in the
  path of the parsed URL, not in the string given. In particular, with
  \<open>URL_new outside\<close> for the URL parser of the platform, whatever \<open>outside\<close> is,
  \<open>isArticlePage\<close> returns false for \<^verbatim>\<open>https://en.wikipedia.org/wiki/\<close> followed
  by \<open>p\<close> and by any suffix that contains no slash and no backslash.
\<close>

theorem isArticlePage_excluded_namespace:
  "(new_URL url = Inr u \<and> p \<in> set EXCLUDED_NAMESPACES \<and> pathname u = ''/wiki/'' @ p @ s \<longrightarrow>
      isArticlePage new_URL url = Inr False)
   \<and> (p \<in> set EXCLUDED_NAMESPACES \<and> (\<forall>c \<in> set s. c \<noteq> CHR ''/'' \<and> c \<noteq> CHR 0x5C) \<longrightarrow>
      isArticlePage (URL_new outside) (''https://en.wikipedia.org/wiki/'' @ p @ s) = Inr False)"
proof -
  have "isArticlePage (URL_new outside) (''https://en.wikipedia.org/wiki/'' @ p @ s) = Inr False"
    if "p \<in> set EXCLUDED_NAMESPACES" and "\<forall>c \<in> set s. c \<noteq> CHR ''/'' \<and> c \<noteq> CHR 0x5C"
    using that by (intro isArticlePage_namespace_url) (simp_all add: is_slash_def)
  with excluded_path_not_article [of new_URL url u p s] show ?thesis
    by blast
qed

text \<open>
  The theorem of C3 at the search page of the English Wikipedia, by its parsed path and
  by its suffix without a slash.
\<close>

theorem isArticlePage_excluded_namespace_witness:
  "URL_new (\<lambda>x. Inl TypeError) ''https://en.wikipedia.org/wiki/Special:Search'' =
     Inr \<lparr>hostname = ''en.wikipedia.org'', pathname = ''/wiki/Special:Search'',
          search = '''', hash = ''''\<rparr>
   \<and> ''Special:'' \<in> set EXCLUDED_NAMESPACES
   \<and> ''/wiki/Special:Search'' = ''/wiki/'' @ ''Special:'' @ ''Search''
   \<and> list_all (\<lambda>c. c \<noteq> CHR ''/'' \<and> c \<noteq> CHR 0x5C) ''Search?q=a b''
   \<and> isArticlePage (URL_new (\<lambda>x. Inl TypeError)) ''https://en.wikipedia.org/wiki/Special:Search'' = Inr False
   \<and> isArticlePage (URL_new (\<lambda>x. Inl TypeError))
        (''https://en.wikipedia.org/wiki/'' @ ''Special:'' @ ''Search?q=a b'') = Inr False"
proof -
  have m: "''Special:'' \<in> set EXCLUDED_NAMESPACES"
    by (simp add: EXCLUDED_NAMESPACES_def)
  have p: "pathname \<lparr>hostname = ''en.wikipedia.org'', pathname = ''/wiki/Special:Search'',
          search = '''', hash = ''''\<rparr> = ''/wiki/'' @ ''Special:'' @ ''Search''"
    by simp
  have n: "\<forall>c \<in> set ''Search?q=a b''. c \<noteq> CHR ''/'' \<and> c \<noteq> CHR 0x5C"
    by simp
  have a: "isArticlePage (URL_new (\<lambda>x. Inl TypeError)) ''https://en.wikipedia.org/wiki/Special:Search'' = Inr False"
    using isArticlePage_excluded_namespace
      [of "URL_new (\<lambda>x. Inl TypeError)" "''https://en.wikipedia.org/wiki/Special:Search''"
        "\<lparr>hostname = ''en.wikipedia.org'', pathname = ''/wiki/Special:Search'',
          search = '''', hash = ''''\<rparr>" "''Special:''" "''Search''"]
      URL_new_special m p
    by blast
  have b: "isArticlePage (URL_new (\<lambda>x. Inl TypeError))
        (''https://en.wikipedia.org/wiki/'' @ ''Special:'' @ ''Search?q=a b'') = Inr False"
    using isArticlePage_excluded_namespace
      [of "URL_new (\<lambda>x. Inl TypeError)" "''x''" "\<lparr>hostname = '''', pathname = '''', search = '''', hash = ''''\<rparr>"
        "''Special:''" "''Search?q=a b''"]
      m n
    by blast
  from a b m URL_new_special show ?thesis
    by simp
qed

text \<open>
  C3 as stated fails for a suffix that begins with a double-dot segment: parsing
  \<^verbatim>\<open>https://en.wikipedia.org/wiki/Special:/../Foo\<close> removes the segment
  \<^verbatim>\<open>Special:\<close> from the path, which becomes \<^verbatim>\<open>/wiki/Foo\<close>, and \<open>isArticlePage\<close>
  returns true.
\<close>

theorem isArticlePage_dot_segment_counterexample:
  "''Special:'' \<in> set EXCLUDED_NAMESPACES
   \<and> URL_new (\<lambda>x. Inl TypeError) (''https://en.wikipedia.org/wiki/'' @ ''Special:'' @ ''/../Foo'') =
       Inr \<lparr>hostname = ''en.wikipedia.org'', pathname = ''/wiki/Foo'',
            search = '''', hash = ''''\<rparr>
   \<and> isArticlePage (URL_new (\<lambda>x. Inl TypeError)) (''https://en.wikipedia.org/wiki/'' @ ''Special:'' @ ''/../Foo'') =
       Inr True"
proof -
  have m: "''Special:'' \<in> set EXCLUDED_NAMESPACES"
    by (simp add: EXCLUDED_NAMESPACES_def)
  have a: "isArticlePage (URL_new (\<lambda>x. Inl TypeError)) ''https://en.wikipedia.org/wiki/Special:/../Foo'' = Inr True"
    by (simp add: isArticlePage_Inr [where new_URL = "URL_new (\<lambda>x. Inl TypeError)", OF URL_new_dot_segment] eval_defs)
  from m a URL_new_dot_segment show ?thesis by simp
qed

text \<open>
  C4, as amended. \<open>extractLanguage\<close> returns a language code exactly when the URL
  parses and the host name of the parsed URL is a language label (two or three
  lowercase ASCII letters, or \<^verbatim>\<open>simple\<close>) followed by \<^verbatim>\<open>.wikipedia.org\<close>; the code is
  that label. In every other case, a parse failure included, it returns \<^verbatim>\<open>null\<close>.
  The pattern is matched against the parsed host name, in which the parser has already
  lowercased the letters of the input.
\<close>

theorem extractLanguage_pattern:
  "(extractLanguage new_URL url = Inr (Some l) \<longleftrightarrow>
      (\<exists>u. new_URL url = Inr u \<and> hostname u = l @ ''.wikipedia.org'' \<and> language_label l))
   \<and> (extractLanguage new_URL url = Inr None \<longleftrightarrow>
      \<not> (\<exists>u l'. new_URL url = Inr u \<and> hostname u = l' @ ''.wikipedia.org''
            \<and> language_label l'))"
proof -
  have some: "extractLanguage new_URL url = Inr (Some k) \<longleftrightarrow>
      (\<exists>u. new_URL url = Inr u \<and> hostname u = k @ ''.wikipedia.org'' \<and> language_label k)"
    for k
    by (cases "new_URL url") (simp_all add: extractLanguage_Inl extractLanguage_Inr_Some)
  obtain lo where lo: "extractLanguage new_URL url = Inr lo"
    using extractLanguage_returns by blast
  have "lo = None \<longleftrightarrow> \<not> (\<exists>k. extractLanguage new_URL url = Inr (Some k))"
    using lo by (cases lo) simp_all
  with lo some show ?thesis by auto
qed

text \<open>
  The theorem of C4 at a URL of the English Wikipedia, and at a URL whose host has two
  subdomain labels.
\<close>

theorem extractLanguage_pattern_witness:
  "extractLanguage (URL_new (\<lambda>x. Inl TypeError)) ''https://en.wikipedia.org/wiki/Matchbox_Twenty'' = Inr (Some ''en'')
   \<and> extractLanguage (URL_new (\<lambda>x. Inl TypeError)) ''https://en.m.wikipedia.org/wiki/Foo'' = Inr None
   \<and> (\<exists>u. URL_new (\<lambda>x. Inl TypeError) ''https://en.wikipedia.org/wiki/Matchbox_Twenty'' = Inr u
           \<and> hostname u = ''en'' @ ''.wikipedia.org'' \<and> language_label ''en'')
   \<and> \<not> (\<exists>u l'. URL_new (\<lambda>x. Inl TypeError) ''https://en.m.wikipedia.org/wiki/Foo'' = Inr u
           \<and> hostname u = l' @ ''.wikipedia.org'' \<and> language_label l')"
  using
    extractLanguage_pattern [of "URL_new (\<lambda>x. Inl TypeError)" "''https://en.wikipedia.org/wiki/Matchbox_Twenty''" "''en''"]
    extractLanguage_pattern [of "URL_new (\<lambda>x. Inl TypeError)" "''https://en.m.wikipedia.org/wiki/Foo''" "''''"]
    matchbox_facts(2) mobile_facts(2)
  by simp

text \<open>
  C4 as stated fails for uppercase letters in the input: the host of
  \<^verbatim>\<open>https://EN.wikipedia.org/wiki/Article\<close> parses to \<^verbatim>\<open>en.wikipedia.org\<close>, and
  \<open>extractLanguage\<close> returns \<^verbatim>\<open>en\<close>.
\<close>

theorem extractLanguage_uppercase_counterexample:
  "URL_new (\<lambda>x. Inl TypeError) ''https://EN.wikipedia.org/wiki/Article'' =
     Inr \<lparr>hostname = ''en.wikipedia.org'', pathname = ''/wiki/Article'',
          search = '''', hash = ''''\<rparr>
   \<and> extractLanguage (URL_new (\<lambda>x. Inl TypeError)) ''https://EN.wikipedia.org/wiki/Article'' = Inr (Some ''en'')"
  by (simp add: URL_new_uppercase eval_defs)

text \<open>
  C5, as amended. For a URL whose host ends with \<^verbatim>\<open>.wikipedia.org\<close> (the test of
  \<open>isArticlePage\<close>) and whose path is exactly \<^verbatim>\<open>/wiki/\<close>, or is the main-page path
  \<^verbatim>\<open>/wiki/Main_Page\<close>, \<open>isArticlePage\<close> returns true. For the path \<^verbatim>\<open>/wiki/\<close>
  \<open>extractArticleName\<close> returns \<^verbatim>\<open>null\<close>, whatever the host. What
  \<open>transformToGrokipedia\<close> returns for that path depends on the part \<open>l\<close> of the host
  before \<^verbatim>\<open>.wikipedia.org\<close>: the failure
  \<^verbatim>\<open>Could not extract article name from URL\<close> when \<open>l\<close> is a language label, and the
  failure \<^verbatim>\<open>Could not extract language from URL\<close> when it is not, the language being
  extracted before the article name.
\<close>

theorem bare_wiki_path:
  "(new_URL url = Inr u \<and> endsWith (hostname u) ''.wikipedia.org''
      \<and> (pathname u = ''/wiki/'' \<or> pathname u = ''/wiki/Main_Page'') \<longrightarrow>
      isArticlePage new_URL url = Inr True)
   \<and> (new_URL url = Inr u \<and> pathname u = ''/wiki/'' \<longrightarrow>
      extractArticleName new_URL url = Inr None)
   \<and> (new_URL url = Inr u \<and> hostname u = l @ ''.wikipedia.org'' \<and> language_label l
        \<and> pathname u = ''/wiki/'' \<longrightarrow>
      transformToGrokipedia new_URL url =
        Inr (failure ''Could not extract article name from URL''))
   \<and> (new_URL url = Inr u \<and> hostname u = l @ ''.wikipedia.org'' \<and> \<not> language_label l
        \<and> pathname u = ''/wiki/'' \<longrightarrow>
      transformToGrokipedia new_URL url =
        Inr (failure ''Could not extract language from URL''))"
proof -
  have excl: "\<forall>ns \<in> set EXCLUDED_NAMESPACES. \<not> startsWith r ns"
    if "r = '''' \<or> r = ''Main_Page''" for r
    using that by (auto simp: EXCLUDED_NAMESPACES_def startsWith_def)
  have art: "isArticlePage new_URL url = Inr True"
    if u: "new_URL url = Inr u" and ends: "endsWith (hostname u) ''.wikipedia.org''"
      and p: "pathname u = ''/wiki/'' \<or> pathname u = ''/wiki/Main_Page''"
  proof -
    from p have sw: "startsWith (pathname u) ''/wiki/''"
      and dr: "drop 6 (pathname u) = '''' \<or> drop 6 (pathname u) = ''Main_Page''"
      by (auto simp: startsWith_def)
    from u ends sw excl [OF dr] show ?thesis
      by (simp add: isArticlePage_Inr)
  qed
  have name: "extractArticleName new_URL url = Inr None"
    if "new_URL url = Inr u" and "pathname u = ''/wiki/''"
    using that by (simp add: extractArticleName_Inr)
  have ends: "endsWith (hostname u) ''.wikipedia.org''"
    if "hostname u = l @ ''.wikipedia.org''"
    using that by (simp add: endsWith_def)
  have label: "transformToGrokipedia new_URL url =
      Inr (failure ''Could not extract article name from URL'')"
    if u: "new_URL url = Inr u" and h: "hostname u = l @ ''.wikipedia.org''"
      and l: "language_label l" and p: "pathname u = ''/wiki/''"
  proof -
    from u h l have lang: "extractLanguage new_URL url = Inr (Some l)"
      by (simp add: extractLanguage_Inr_Some)
    from art [OF u ends [OF h]] p lang name [OF u p] show ?thesis
      by (cases new_URL url rule: transformToGrokipedia_traced_cases)
         (simp_all add: transformToGrokipedia_def)
  qed
  have no_label: "transformToGrokipedia new_URL url =
      Inr (failure ''Could not extract language from URL'')"
    if u: "new_URL url = Inr u" and h: "hostname u = l @ ''.wikipedia.org''"
      and l: "\<not> language_label l" and p: "pathname u = ''/wiki/''"
  proof -
    from h l have "\<not> (\<exists>k. hostname u = k @ ''.wikipedia.org'' \<and> language_label k)"
      by auto
    with u have lang: "extractLanguage new_URL url = Inr None"
      by (simp add: extractLanguage_Inr_None)
    from art [OF u ends [OF h]] p lang show ?thesis
      by (cases new_URL url rule: transformToGrokipedia_traced_cases)
         (simp_all add: transformToGrokipedia_def)
  qed
  from art name label no_label show ?thesis
    by blast
qed

text \<open>
  The theorem of C5 at the bare \<^verbatim>\<open>/wiki/\<close> URL and the main-page URL of the English
  Wikipedia, and at the bare \<^verbatim>\<open>/wiki/\<close> URL of its mobile site, whose host does not
  begin with a language label alone.
\<close>

theorem bare_wiki_path_witness:
  "URL_new (\<lambda>x. Inl TypeError) ''https://en.wikipedia.org/wiki/'' =
     Inr \<lparr>hostname = ''en.wikipedia.org'', pathname = ''/wiki/'', search = '''', hash = ''''\<rparr>
   \<and> ''en.wikipedia.org'' = ''en'' @ ''.wikipedia.org''
   \<and> language_label ''en''
   \<and> isArticlePage (URL_new (\<lambda>x. Inl TypeError)) ''https://en.wikipedia.org/wiki/'' = Inr True
   \<and> extractArticleName (URL_new (\<lambda>x. Inl TypeError)) ''https://en.wikipedia.org/wiki/'' = Inr None
   \<and> transformToGrokipedia (URL_new (\<lambda>x. Inl TypeError)) ''https://en.wikipedia.org/wiki/'' =
       Inr (failure ''Could not extract article name from URL'')
   \<and> URL_new (\<lambda>x. Inl TypeError) ''https://en.wikipedia.org/wiki/Main_Page'' =
       Inr \<lparr>hostname = ''en.wikipedia.org'', pathname = ''/wiki/Main_Page'',
            search = '''', hash = ''''\<rparr>
   \<and> isArticlePage (URL_new (\<lambda>x. Inl TypeError)) ''https://en.wikipedia.org/wiki/Main_Page'' =
       Inr True
   \<and> URL_new (\<lambda>x. Inl TypeError) ''https://en.m.wikipedia.org/wiki/'' =
       Inr \<lparr>hostname = ''en.m.wikipedia.org'', pathname = ''/wiki/'', search = '''',
            hash = ''''\<rparr>
   \<and> ''en.m.wikipedia.org'' = ''en.m'' @ ''.wikipedia.org''
   \<and> \<not> language_label ''en.m''
   \<and> transformToGrokipedia (URL_new (\<lambda>x. Inl TypeError)) ''https://en.m.wikipedia.org/wiki/'' =
       Inr (failure ''Could not extract language from URL'')"
proof -
  have l: "language_label ''en''" and m: "\<not> language_label ''en.m''"
    by (simp_all add: language_label_def is_lower_def)
  have e: "endsWith ''en.wikipedia.org'' ''.wikipedia.org''"
    by (simp add: endsWith_def)
  from bare_wiki_path
      [of "URL_new (\<lambda>x. Inl TypeError)" "''https://en.wikipedia.org/wiki/''"
        "\<lparr>hostname = ''en.wikipedia.org'', pathname = ''/wiki/'', search = '''',
          hash = ''''\<rparr>" "''en''"]
    bare_wiki_path
      [of "URL_new (\<lambda>x. Inl TypeError)" "''https://en.wikipedia.org/wiki/Main_Page''"
        "\<lparr>hostname = ''en.wikipedia.org'', pathname = ''/wiki/Main_Page'', search = '''',
          hash = ''''\<rparr>" "''en''"]
    bare_wiki_path
      [of "URL_new (\<lambda>x. Inl TypeError)" "''https://en.m.wikipedia.org/wiki/''"
        "\<lparr>hostname = ''en.m.wikipedia.org'', pathname = ''/wiki/'', search = '''',
          hash = ''''\<rparr>" "''en.m''"]
    URL_new_bare [of "\<lambda>x. Inl TypeError"] URL_new_main_page [of "\<lambda>x. Inl TypeError"]
    URL_new_bare_mobile [of "\<lambda>x. Inl TypeError"] l m e
  show ?thesis by simp
qed

text \<open>
  C5 as stated fails for a host that ends with \<^verbatim>\<open>.wikipedia.org\<close> and is not a
  language label followed by it. The URL \<^verbatim>\<open>https://en.m.wikipedia.org/wiki/\<close> has such
  a host and the path \<^verbatim>\<open>/wiki/\<close>: \<open>isArticlePage\<close> returns true and
  \<open>extractArticleName\<close> returns \<^verbatim>\<open>null\<close>, but \<open>transformToGrokipedia\<close> returns the
  failure \<^verbatim>\<open>Could not extract language from URL\<close>, which is not the failure the claim
  names.
\<close>

theorem bare_wiki_mobile_counterexample:
  "URL_parse ''https://en.m.wikipedia.org/wiki/'' =
     Parsed \<lparr>hostname = ''en.m.wikipedia.org'', pathname = ''/wiki/'', search = '''',
             hash = ''''\<rparr>
   \<and> URL_new (\<lambda>x. Inl TypeError) ''https://en.m.wikipedia.org/wiki/'' =
     Inr \<lparr>hostname = ''en.m.wikipedia.org'', pathname = ''/wiki/'', search = '''',
          hash = ''''\<rparr>
   \<and> endsWith ''en.m.wikipedia.org'' ''.wikipedia.org''
   \<and> isArticlePage (URL_new (\<lambda>x. Inl TypeError)) ''https://en.m.wikipedia.org/wiki/'' = Inr True
   \<and> extractArticleName (URL_new (\<lambda>x. Inl TypeError)) ''https://en.m.wikipedia.org/wiki/'' =
       Inr None
   \<and> transformToGrokipedia (URL_new (\<lambda>x. Inl TypeError)) ''https://en.m.wikipedia.org/wiki/'' =
       Inr (failure ''Could not extract language from URL'')
   \<and> transformToGrokipedia (URL_new (\<lambda>x. Inl TypeError)) ''https://en.m.wikipedia.org/wiki/'' \<noteq>
       Inr (failure ''Could not extract article name from URL'')"
  by (simp add: URL_parse_bare_mobile URL_new_bare_mobile bare_mobile_facts endsWith_def
      failure_def)

text \<open>
  C6. When the \<^verbatim>\<open>URL\<close> constructor throws, \<open>isArticlePage\<close> returns false,
  \<open>extractLanguage\<close> and \<open>extractArticleName\<close> return \<^verbatim>\<open>null\<close>, and
  \<open>transformToGrokipedia\<close> returns the failure \<^verbatim>\<open>Not a Wikipedia article page\<close>.
  On every input, and whatever the platform functions do, each of these four functions
  and \<open>decodeArticleName\<close> returns a value: none of them throws.
\<close>

theorem parse_failure_fails_closed:
  "(new_URL url = Inl e \<longrightarrow>
      isArticlePage new_URL url = Inr False
      \<and> extractLanguage new_URL url = Inr None
      \<and> extractArticleName new_URL url = Inr None
      \<and> transformToGrokipedia new_URL url = Inr (failure ''Not a Wikipedia article page''))
   \<and> (\<exists>b. isArticlePage new_URL url = Inr b)
   \<and> (\<exists>lo. extractLanguage new_URL url = Inr lo)
   \<and> (\<exists>ao. extractArticleName new_URL url = Inr ao)
   \<and> (\<exists>r. transformToGrokipedia new_URL url = Inr r)
   \<and> (\<exists>d. decodeArticleName dec s = Inr d)"
  using isArticlePage_returns [of new_URL url] extractLanguage_returns [of new_URL url]
    extractArticleName_returns [of new_URL url] transformToGrokipedia_returns [of new_URL url]
    decodeArticleName_returns [of dec s]
  by (auto simp: isArticlePage_Inl extractLanguage_Inl extractArticleName_Inl
      transform_not_article)

text \<open>The theorem of C6 at a string that is no URL.\<close>

theorem parse_failure_fails_closed_witness:
  "URL_parse ''not a url'' = Failure
   \<and> URL_new (\<lambda>x. Inl TypeError) ''not a url'' = Inl TypeError
   \<and> isArticlePage (URL_new (\<lambda>x. Inl TypeError)) ''not a url'' = Inr False
   \<and> extractLanguage (URL_new (\<lambda>x. Inl TypeError)) ''not a url'' = Inr None
   \<and> extractArticleName (URL_new (\<lambda>x. Inl TypeError)) ''not a url'' = Inr None
   \<and> transformToGrokipedia (URL_new (\<lambda>x. Inl TypeError)) ''not a url'' =
       Inr (failure ''Not a Wikipedia article page'')"
  using parse_failure_fails_closed [of "URL_new (\<lambda>x. Inl TypeError)" "''not a url''" TypeError]
    URL_new_not_a_url URL_parse_not_a_url
  by simp

text \<open>
  C7. When \<^verbatim>\<open>decodeURIComponent\<close> returns, \<open>decodeArticleName\<close> returns the decoded
  string with every underscore replaced by a space. When \<^verbatim>\<open>decodeURIComponent\<close>
  throws, \<open>decodeArticleName\<close> returns the string it was given with every underscore
  replaced by a space. In both cases it returns, and no underscore is left in what it
  returns.
\<close>

theorem decodeArticleName_spec:
  "(dec s = Inr d \<longrightarrow>
      decodeArticleName dec s = Inr (map (\<lambda>c. if c = CHR ''_'' then CHR '' '' else c) d))
   \<and> (dec s = Inl e \<longrightarrow>
      decodeArticleName dec s = Inr (map (\<lambda>c. if c = CHR ''_'' then CHR '' '' else c) s))
   \<and> (\<exists>r. decodeArticleName dec s = Inr r \<and> CHR ''_'' \<notin> set r)"
  using decodeArticleName_returns [of dec s]
  by (simp add: decodeArticleName_Inr decodeArticleName_Inl replace_underscores_map)

text \<open>
  The theorem of C7 at an identifier with a two-octet escape, which decodes, and at one
  with a malformed escape, which does not.
\<close>

theorem decodeArticleName_spec_witness:
  "decodeURIComponent ''S%C3%A1mi_people'' =
     Inr [CHR ''S'', CHR 0xC3, CHR 0xA1, CHR ''m'', CHR ''i'', CHR ''_'', CHR ''p'', CHR ''e'',
          CHR ''o'', CHR ''p'', CHR ''l'', CHR ''e'']
   \<and> decodeArticleName decodeURIComponent ''S%C3%A1mi_people'' =
     Inr [CHR ''S'', CHR 0xC3, CHR 0xA1, CHR ''m'', CHR ''i'', CHR '' '', CHR ''p'', CHR ''e'',
          CHR ''o'', CHR ''p'', CHR ''l'', CHR ''e'']
   \<and> decodeURIComponent ''Invalid%ZZ_x'' = Inl URIError
   \<and> decodeArticleName decodeURIComponent ''Invalid%ZZ_x'' = Inr ''Invalid%ZZ x''"
  using
    decodeArticleName_spec [of decodeURIComponent "''S%C3%A1mi_people''"
      "[CHR ''S'', CHR 0xC3, CHR 0xA1, CHR ''m'', CHR ''i'', CHR ''_'', CHR ''p'', CHR ''e'',
          CHR ''o'', CHR ''p'', CHR ''l'', CHR ''e'']" URIError]
    decodeArticleName_spec [of decodeURIComponent "''Invalid%ZZ_x''" "''''" URIError]
    decodeURIComponent_sami decodeURIComponent_invalid
  by simp

text \<open>
  C8. With the empty allow list every language is enabled; with a non-empty allow
  list a language is enabled exactly when it is an element of the list, compared by
  string equality: \<^verbatim>\<open>EN\<close> is not enabled by the list of \<^verbatim>\<open>en\<close> alone.
\<close>

theorem isLanguageEnabled_spec:
  "isLanguageEnabled x [] = True
   \<and> (L \<noteq> [] \<longrightarrow> isLanguageEnabled x L = (x \<in> set L))
   \<and> isLanguageEnabled ''EN'' [''en''] = False"
  by (simp add: isLanguageEnabled_def Array_includes_set)

text \<open>The theorem of C8 at the examples of the specification.\<close>

theorem isLanguageEnabled_spec_witness:
  "isLanguageEnabled ''zh'' [] = True
   \<and> [''en'', ''de''] \<noteq> []
   \<and> isLanguageEnabled ''ja'' [''en'', ''de''] = False
   \<and> isLanguageEnabled ''en'' [''en'', ''de''] = True"
  using isLanguageEnabled_spec [of "''zh''" "[''en'', ''de'']"]
    isLanguageEnabled_spec [of "''ja''" "[''en'', ''de'']"]
    isLanguageEnabled_spec [of "''en''" "[''en'', ''de'']"]
  by simp

text \<open>
  C9. \<open>transformToGrokipedia\<close> always returns a result, and the result has one of two
  shapes: \<open>success\<close> is true, the destination URL, the article name and the language
  are all set and \<open>error\<close> is not; or \<open>success\<close> is false, \<open>error\<close> is set and none
  of the other three is.
\<close>

theorem transformToGrokipedia_shape:
  "\<exists>r. transformToGrokipedia new_URL url = Inr r
     \<and> ((success r \<and> grokipediaUrl r \<noteq> None \<and> articleName r \<noteq> None \<and> language r \<noteq> None
           \<and> error r = None)
        \<or> (\<not> success r \<and> error r \<noteq> None \<and> grokipediaUrl r = None \<and> articleName r = None
           \<and> language r = None))"
  by (cases new_URL url rule: transformToGrokipedia_traced_cases)
     (simp_all add: transformToGrokipedia_def)

text \<open>The theorem of C9 at a URL on which the transformation succeeds.\<close>

theorem transformToGrokipedia_shape_witness:
  "\<exists>r. transformToGrokipedia (URL_new (\<lambda>x. Inl TypeError))
       ''https://en.wikipedia.org/wiki/S%C3%A1mi_people?action=history#top'' = Inr r
     \<and> r = \<lparr>success = True,
          grokipediaUrl = Some ''https://grokipedia.com/page/S%C3%A1mi_people'',
          articleName = Some ''S%C3%A1mi_people'', language = Some ''en'', error = None\<rparr>
     \<and> success r \<and> grokipediaUrl r \<noteq> None \<and> articleName r \<noteq> None \<and> language r \<noteq> None
     \<and> error r = None"
  using transformToGrokipedia_shape
      [of "URL_new (\<lambda>x. Inl TypeError)" "''https://en.wikipedia.org/wiki/S%C3%A1mi_people?action=history#top''"]
    transform_sami
  by simp

text \<open>
  C10. \<open>extractArticleName\<close> does not look at the host name: for every URL that parses
  to a path \<^verbatim>\<open>/wiki/\<close> followed by a non-empty remainder, it returns that remainder.
  So for \<^verbatim>\<open>https://example.com/wiki/Foo\<close> it returns \<^verbatim>\<open>Foo\<close>, while
  \<open>isArticlePage\<close> returns false for that URL.
\<close>

theorem extractArticleName_ignores_hostname:
  "(new_URL url = Inr u \<and> pathname u = ''/wiki/'' @ r \<and> r \<noteq> '''' \<longrightarrow>
      extractArticleName new_URL url = Inr (Some r))
   \<and> extractArticleName (URL_new outside) ''https://example.com/wiki/Foo'' = Inr (Some ''Foo'')
   \<and> isArticlePage (URL_new outside) ''https://example.com/wiki/Foo'' = Inr False"
proof -
  have gen: "extractArticleName f x = Inr (Some q)"
    if "f x = Inr v" and "pathname v = ''/wiki/'' @ q" and "q \<noteq> ''''" for f x v q
    using that by (simp add: extractArticleName_Inr startsWith_def)
  from gen [of new_URL url u r] example_com_facts show ?thesis
    by blast
qed

text \<open>The theorem of C10 at a URL outside Wikipedia.\<close>

theorem extractArticleName_ignores_hostname_witness:
  "URL_new (\<lambda>x. Inl TypeError) ''https://example.com/wiki/Foo'' =
     Inr \<lparr>hostname = ''example.com'', pathname = ''/wiki/Foo'', search = '''', hash = ''''\<rparr>
   \<and> ''/wiki/Foo'' = ''/wiki/'' @ ''Foo''
   \<and> extractArticleName (URL_new (\<lambda>x. Inl TypeError)) ''https://example.com/wiki/Foo'' = Inr (Some ''Foo'')"
  using extractArticleName_ignores_hostname
      [of "URL_new (\<lambda>x. Inl TypeError)" "''https://example.com/wiki/Foo''"
        "\<lparr>hostname = ''example.com'', pathname = ''/wiki/Foo'', search = '''', hash = ''''\<rparr>"
        "''Foo''"]
    URL_new_example_com
  by simp

end
